theory Spec2Isabelle
  imports Complex_Main
begin

section \<open>Data model of \<open>lbo_debt_calculator.py\<close>\<close>

text \<open>
  The code computes with Python's \<open>float\<close>. It is modelled twice. The functions whose names
  end in \<open>binary64\<close> are the code with every float operation rounded as Python rounds it
  (IEEE 754 binary64, round to nearest, ties to even): they say what the program returns
  and when it raises. The functions \<open>monthly_payment\<close>, \<open>schedule_loop\<close> and
  \<open>compute_monthly_schedule\<close> are the same code in exact real arithmetic: they say what the
  formulas give without rounding, and agree with the program only up to rounding and only
  where the program returns. Python's unbounded \<open>int\<close> is \<open>int\<close>. Exceptions are values: a
  function that can raise returns \<open>error + 'a\<close>, with \<open>Inl\<close> for the exception.
\<close>

datatype error = ZeroDivisionError | KeyError

text \<open>The dataclass \<open>LoanInputs\<close>.\<close>

record LoanInputs =
  principal :: real
  annual_rate :: real
  years :: int

text \<open>
  One dict appended to \<open>rows\<close> in \<open>compute_monthly_schedule\<close>. The key \<open>"principal"\<close>
  holds the local variable \<open>principal_paid\<close>; the field takes the variable's name, since
  \<open>principal\<close> is already the loan's field.
\<close>

record ScheduleRow =
  month :: int
  year :: int
  payment :: real
  principal_paid :: real
  interest :: real

text \<open>
  A pandas frame of schedule rows: its column labels and its rows. \<open>pd.DataFrame(rows)\<close>
  takes the columns from the keys of the dicts, so the frame built from an empty list has
  no column at all.
\<close>

record DataFrame =
  columns :: "string list"
  rows :: "ScheduleRow list"

definition schedule_columns :: "string list" where
  "schedule_columns = [''month'', ''year'', ''payment'', ''principal'', ''interest'']"

definition pd_DataFrame :: "ScheduleRow list \<Rightarrow> DataFrame" where
  "pd_DataFrame rs = \<lparr>columns = (if rs = [] then [] else schedule_columns), rows = rs\<rparr>"

text \<open>
  A row of the frame \<open>agg\<close> after \<open>groupby("year").agg(...).reset_index()\<close>, and a row
  of the frame that \<open>aggregate_schedule\<close> returns, after \<open>months\<close> is dropped and the
  columns are renamed (\<open>Annee\<close>, \<open>Remboursement_du_pret\<close>, \<open>Principal\<close>, \<open>Interet\<close>
  stand for the French labels of the source).
\<close>

record AggRow =
  agg_year :: int
  agg_payment :: real
  agg_principal :: real
  agg_interest :: real
  agg_months :: nat

record YearlyRow =
  Annee :: int
  Remboursement_du_pret :: real
  Principal :: real
  Interet :: real

section \<open>\<open>compute_monthly_schedule\<close>\<close>

text \<open>
  \<open>x ** n\<close> for a float \<open>x\<close> and an int \<open>n\<close>: Python raises \<open>ZeroDivisionError\<close> when zero
  is raised to a negative power.
\<close>

definition float_pow :: "real \<Rightarrow> int \<Rightarrow> error + real" where
  "float_pow x n = (if x = 0 \<and> n < 0 then Inl ZeroDivisionError else Inr (x powi n))"

text \<open>\<open>a / b\<close> on floats raises \<open>ZeroDivisionError\<close> when \<open>b\<close> is zero.\<close>

definition float_div :: "real \<Rightarrow> real \<Rightarrow> error + real" where
  "float_div a b = (if b = 0 then Inl ZeroDivisionError else Inr (a / b))"

text \<open>Lines 17 and 18: the local variables \<open>months\<close> and \<open>monthly_rate\<close>.\<close>

definition months_of :: "LoanInputs \<Rightarrow> int" where
  "months_of loan = years loan * 12"

definition monthly_rate_of :: "LoanInputs \<Rightarrow> real" where
  "monthly_rate_of loan = annual_rate loan / 100 / 12"

text \<open>
  Lines 17 to 23 in exact arithmetic: the value of the local variable \<open>monthly_payment\<close>.
  With a positive rate the exact denominator \<open>1 - (1 + monthly_rate) ** (-months)\<close> is never
  zero; the program's rounded denominator can be, and for a very small rate the program's
  payment is far from this one. What the program does there is \<open>monthly_payment_binary64\<close>.
\<close>

definition monthly_payment :: "LoanInputs \<Rightarrow> error + real" where
  "monthly_payment loan =
     (let months = months_of loan;
          monthly_rate = monthly_rate_of loan
      in if monthly_rate = 0
         then float_div (principal loan) (of_int months)
         else (case float_pow (1 + monthly_rate) (- months) of
                 Inl e \<Rightarrow> Inl e
               | Inr p \<Rightarrow> float_div (principal loan * monthly_rate) (1 - p)))"

text \<open>
  Lines 27 to 39: the body of the \<open>for\<close> loop, run over the months that are left. The
  state is the loop-carried \<open>balance\<close> and the list \<open>rows\<close>.
\<close>

fun schedule_loop ::
  "real \<Rightarrow> real \<Rightarrow> real \<Rightarrow> int list \<Rightarrow> ScheduleRow list \<Rightarrow> real \<times> ScheduleRow list" where
  "schedule_loop mp r balance [] rs = (balance, rs)"
| "schedule_loop mp r balance (m # ms) rs =
     (let intr = balance * r;
          paid = mp - intr;
          balance' = max 0 (balance - paid)
      in schedule_loop mp r balance' ms
           (rs @ [\<lparr>month = m, year = \<lceil>of_int m / (12 :: real)\<rceil>, payment = mp,
                   principal_paid = paid, interest = intr\<rparr>]))"

text \<open>
  The function in exact arithmetic. \<open>range(1, months + 1)\<close> is \<open>[1..months]\<close>, empty when
  \<open>months < 1\<close>. The function as the program runs it is \<open>compute_monthly_schedule_binary64\<close>.
\<close>

definition compute_monthly_schedule :: "LoanInputs \<Rightarrow> error + DataFrame" where
  "compute_monthly_schedule loan =
     (case monthly_payment loan of
        Inl e \<Rightarrow> Inl e
      | Inr mp \<Rightarrow>
          Inr (pd_DataFrame
                 (snd (schedule_loop mp (monthly_rate_of loan) (principal loan)
                         [1..months_of loan] []))))"

text \<open>
  The loop-carried balance after the first \<open>k\<close> iterations of the loop, for the payment
  \<open>mp\<close> computed before the loop.
\<close>

definition balance_after :: "LoanInputs \<Rightarrow> real \<Rightarrow> int \<Rightarrow> real" where
  "balance_after loan mp k =
     fst (schedule_loop mp (monthly_rate_of loan) (principal loan) [1..k] [])"

text \<open>What every emitted row satisfies, for the payment \<open>mp\<close> computed before the loop.\<close>

definition row_ok :: "real \<Rightarrow> ScheduleRow \<Rightarrow> bool" where
  "row_ok mp x \<longleftrightarrow> year x = \<lceil>of_int (month x) / (12 :: real)\<rceil> \<and> payment x = mp
      \<and> payment x = principal_paid x + interest x"

section \<open>\<open>aggregate_schedule\<close>\<close>

text \<open>
  \<open>df.groupby("year").agg(sum, sum, sum, count).reset_index()\<close>: one row per distinct
  year, the years in ascending order (\<open>groupby\<close> sorts its keys), each with the sums of
  the three amounts over the rows of that year and the number of those rows.
\<close>

definition group_rows :: "ScheduleRow list \<Rightarrow> int \<Rightarrow> ScheduleRow list" where
  "group_rows rs y = filter (\<lambda>r. year r = y) rs"

definition agg_row :: "ScheduleRow list \<Rightarrow> int \<Rightarrow> AggRow" where
  "agg_row rs y =
     (let g = group_rows rs y
      in \<lparr>agg_year = y,
          agg_payment = sum_list (map payment g),
          agg_principal = sum_list (map principal_paid g),
          agg_interest = sum_list (map interest g),
          agg_months = length g\<rparr>)"

definition groupby_year :: "ScheduleRow list \<Rightarrow> AggRow list" where
  "groupby_year rs = map (agg_row rs) (sort (remdups (map year rs)))"

text \<open>
  Lines 59 to 61: the three amounts divided by the column \<open>months\<close>. pandas does not
  raise on a zero divisor; the count of a group is never zero (lemma
  \<open>groupby_year_months_pos\<close> below).
\<close>

definition monthly_average :: "AggRow \<Rightarrow> AggRow" where
  "monthly_average a =
     a\<lparr>agg_payment := agg_payment a / of_nat (agg_months a),
       agg_principal := agg_principal a / of_nat (agg_months a),
       agg_interest := agg_interest a / of_nat (agg_months a)\<rparr>"

text \<open>Lines 62 to 70: \<open>months\<close> dropped, the other columns renamed.\<close>

definition rename_row :: "AggRow \<Rightarrow> YearlyRow" where
  "rename_row a =
     \<lparr>Annee = agg_year a, Remboursement_du_pret = agg_payment a,
      Principal = agg_principal a, Interet = agg_interest a\<rparr>"

text \<open>
  \<open>groupby\<close> and \<open>agg\<close> raise \<open>KeyError\<close> when the frame lacks a column they name. The
  result is the list of rows of the returned frame.
\<close>

definition aggregate_schedule :: "DataFrame \<Rightarrow> string \<Rightarrow> error + YearlyRow list" where
  "aggregate_schedule df view =
     (if \<not> set [''year'', ''payment'', ''principal'', ''interest'', ''month'']
            \<subseteq> set (columns df)
      then Inl KeyError
      else let agg = groupby_year (rows df);
               agg' = (if view = ''Mensuel'' then map monthly_average agg else agg)
           in Inr (map rename_row agg'))"

section \<open>The valuation multiple in \<open>main\<close>\<close>

text \<open>
  Lines 93 to 97: the multiple is computed only when \<open>ebitda > 0\<close>; otherwise a message is
  shown and there is no multiple (\<open>None\<close>).
\<close>

definition valuation_multiple :: "real \<Rightarrow> real \<Rightarrow> error + real option" where
  "valuation_multiple ebitda sell_price =
     (if ebitda > 0 then map_sum id Some (float_div sell_price ebitda) else Inr None)"

section \<open>The payment formula in binary64\<close>

text \<open>
  Python's \<open>float\<close> is IEEE 754 binary64: every operation returns the representable
  number nearest to the exact result, a tie going to the even significand. The three
  definitions below compute that rounding for a real number in the finite range:
  \<open>ulp_search\<close> finds the spacing \<open>u\<close> of the representable numbers around \<open>x\<close>, namely
  the power of two with \<open>u * 2^52 \<le> x < u * 2^53\<close>, no smaller than \<open>2^-1074\<close>, by halving
  or doubling from \<open>2^-52\<close>; \<open>fl\<close> rounds \<open>x / u\<close> to an integer. Overflow to infinity is
  not modelled.
\<close>

definition round_half_even :: "real \<Rightarrow> int" where
  "round_half_even x =
     (let n = \<lfloor>x\<rfloor>; d = x - of_int n
      in if d < 1 / 2 then n else if 1 / 2 < d then n + 1 else if even n then n else n + 1)"

fun ulp_search :: "nat \<Rightarrow> real \<Rightarrow> real \<Rightarrow> real" where
  "ulp_search 0 x u = u"
| "ulp_search (Suc fuel) x u =
     (if x < u * 2 ^ 52 \<and> 1 / 2 ^ 1074 < u then ulp_search fuel x (u / 2)
      else if u * 2 ^ 53 \<le> x then ulp_search fuel x (u * 2)
      else u)"

definition fl :: "real \<Rightarrow> real" where
  "fl x = (if x = 0 then 0
           else let u = ulp_search 2200 \<bar>x\<bar> (1 / 2 ^ 52)
                in sgn x * of_int (round_half_even (\<bar>x\<bar> / u)) * u)"

text \<open>
  Lines 17 to 23 again, every float operation rounded. \<open>**\<close> is taken as correctly
  rounded; at the base \<open>1.0\<close> it is exact.
\<close>

definition monthly_payment_binary64 :: "LoanInputs \<Rightarrow> error + real" where
  "monthly_payment_binary64 loan =
     (let months = months_of loan;
          monthly_rate = fl (fl (annual_rate loan / 100) / 12)
      in if monthly_rate = 0
         then map_sum id fl (float_div (principal loan) (of_int months))
         else (case float_pow (fl (1 + monthly_rate)) (- months) of
                 Inl e \<Rightarrow> Inl e
               | Inr p \<Rightarrow>
                   map_sum id fl
                     (float_div (fl (principal loan * monthly_rate)) (fl (1 - fl p)))))"

text \<open>Lines 25 to 40 again, every float operation rounded.\<close>

fun schedule_loop_binary64 ::
  "real \<Rightarrow> real \<Rightarrow> real \<Rightarrow> int list \<Rightarrow> ScheduleRow list \<Rightarrow> real \<times> ScheduleRow list" where
  "schedule_loop_binary64 mp r balance [] rs = (balance, rs)"
| "schedule_loop_binary64 mp r balance (m # ms) rs =
     (let intr = fl (balance * r);
          paid = fl (mp - intr);
          balance' = max 0 (fl (balance - paid))
      in schedule_loop_binary64 mp r balance' ms
           (rs @ [\<lparr>month = m, year = \<lceil>fl (of_int m / 12)\<rceil>, payment = mp,
                   principal_paid = paid, interest = intr\<rparr>]))"

definition compute_monthly_schedule_binary64 :: "LoanInputs \<Rightarrow> error + DataFrame" where
  "compute_monthly_schedule_binary64 loan =
     (case monthly_payment_binary64 loan of
        Inl e \<Rightarrow> Inl e
      | Inr mp \<Rightarrow>
          Inr (pd_DataFrame
                 (snd (schedule_loop_binary64 mp (fl (fl (annual_rate loan / 100) / 12))
                         (principal loan) [1..months_of loan] []))))"

text \<open>
  The loop-carried balance after the first \<open>k\<close> iterations of the loop, every float
  operation rounded.
\<close>

definition balance_after_binary64 :: "LoanInputs \<Rightarrow> real \<Rightarrow> int \<Rightarrow> real" where
  "balance_after_binary64 loan mp k =
     fst (schedule_loop_binary64 mp (fl (fl (annual_rate loan / 100) / 12)) (principal loan)
            [1..k] [])"

section \<open>The loop of \<open>compute_monthly_schedule\<close>\<close>

lemma schedule_loop_append:
  "schedule_loop mp r b (xs @ ys) rs =
     schedule_loop mp r (fst (schedule_loop mp r b xs rs)) ys (snd (schedule_loop mp r b xs rs))"
  by (induction xs arbitrary: b rs) (simp_all add: Let_def)

lemma schedule_loop_months:
  "map month (snd (schedule_loop mp r b ms rs)) = map month rs @ ms"
  by (induction ms arbitrary: b rs) (simp_all add: Let_def)

lemma schedule_loop_length:
  "length (snd (schedule_loop mp r b ms rs)) = length rs + length ms"
  by (induction ms arbitrary: b rs) (simp_all add: Let_def)

lemma schedule_loop_rows_ok:
  "list_all (row_ok mp) rs \<Longrightarrow> list_all (row_ok mp) (snd (schedule_loop mp r b ms rs))"
  by (induction ms arbitrary: b rs) (simp_all add: Let_def row_ok_def)

lemma schedule_loop_interest0:
  "list_all (\<lambda>x. interest x = 0) rs \<Longrightarrow> list_all (\<lambda>x. interest x = 0) (snd (schedule_loop mp 0 b ms rs))"
  by (induction ms arbitrary: b rs) (simp_all add: Let_def)

lemma monthly_payment_zero_rate:
  "annual_rate loan = 0 \<Longrightarrow> 1 \<le> years loan \<Longrightarrow>
   monthly_payment loan = Inr (principal loan / of_int (years loan * 12))"
  by (simp add: monthly_payment_def monthly_rate_of_def months_of_def float_div_def)

lemma powi_neg_lt_1:
  fixes q :: real
  assumes "1 < q" "0 < n"
  shows "q powi (- n) < 1"
proof -
  have "1 < q ^ nat n" using assms by (simp add: one_less_power)
  then have "inverse (q ^ nat n) < 1" using assms
    by (simp add: inverse_less_1_iff)
  then show ?thesis using assms by (simp add: power_int_def power_inverse)
qed

lemma monthly_payment_annuity:
  assumes "0 < annual_rate loan" "1 \<le> years loan"
  shows "monthly_payment loan =
     Inr (principal loan * monthly_rate_of loan /
          (1 - (1 + monthly_rate_of loan) powi (- months_of loan)))"
proof -
  have r: "0 < monthly_rate_of loan" using assms by (simp add: monthly_rate_of_def)
  have n: "0 < months_of loan" using assms by (simp add: months_of_def)
  have "(1 + monthly_rate_of loan) powi (- months_of loan) < 1"
    using r n by (intro powi_neg_lt_1) simp_all
  then show ?thesis using r
    by (simp add: monthly_payment_def float_pow_def float_div_def Let_def)
qed

lemma monthly_payment_total:
  assumes "0 \<le> annual_rate loan" "1 \<le> years loan"
  shows "\<exists>mp. monthly_payment loan = Inr mp"
proof (cases "annual_rate loan = 0")
  case True
  then show ?thesis using assms monthly_payment_zero_rate by blast
next
  case False
  then have "0 < annual_rate loan" using assms by simp
  then show ?thesis using assms monthly_payment_annuity by blast
qed

lemma compute_monthly_schedule_Inr:
  assumes "monthly_payment loan = Inr mp"
  shows "compute_monthly_schedule loan =
     Inr (pd_DataFrame (snd (schedule_loop mp (monthly_rate_of loan) (principal loan)
            [1..months_of loan] [])))"
  using assms by (simp add: compute_monthly_schedule_def)

lemma rows_pd_DataFrame: "rows (pd_DataFrame rs) = rs"
  by (simp add: pd_DataFrame_def)

section \<open>The balance in closed form\<close>

text \<open>The balance after \<open>j\<close> months when the clamp at zero never bites.\<close>

lemma schedule_loop_step_balance:
  fixes b r mp :: real
  shows "b - (mp - b * r) = b * (1 + r) - mp"
  by (simp add: algebra_simps)

lemma closed_shift:
  fixes b r mp :: real
  shows "(b * (1 + r) - mp) * (1 + r) ^ j - mp * (\<Sum>i<j. (1 + r) ^ i)
       = b * (1 + r) ^ Suc j - mp * (\<Sum>i<Suc j. (1 + r) ^ i)"
  by (simp add: algebra_simps)

lemma schedule_loop_balance:
  assumes "\<And>j. 0 < j \<Longrightarrow> j \<le> length ms \<Longrightarrow>
             0 \<le> b * (1 + r) ^ j - mp * (\<Sum>i<j. (1 + r) ^ i)"
  shows "fst (schedule_loop mp r b ms rs)
           = b * (1 + r) ^ length ms - mp * (\<Sum>i<length ms. (1 + r) ^ i)"
  using assms
proof (induction ms arbitrary: b rs)
  case Nil
  then show ?case by simp
next
  case (Cons m ms)
  have "0 \<le> b * (1 + r) ^ 1 - mp * (\<Sum>i<1. (1 + r) ^ i)"
    by (rule Cons.prems) simp_all
  then have pos: "0 \<le> b * (1 + r) - mp" by simp
  define b' where "b' = b * (1 + r) - mp"
  have step: "max 0 (b - (mp - b * r)) = b'"
    using pos by (simp add: schedule_loop_step_balance b'_def)
  have "0 \<le> b' * (1 + r) ^ j - mp * (\<Sum>i<j. (1 + r) ^ i)"
    if "0 < j" "j \<le> length ms" for j
  proof -
    have "0 \<le> b * (1 + r) ^ Suc j - mp * (\<Sum>i<Suc j. (1 + r) ^ i)"
      using that by (intro Cons.prems) simp_all
    then show ?thesis unfolding b'_def closed_shift .
  qed
  then have "fst (schedule_loop mp r b' ms rs')
           = b' * (1 + r) ^ length ms - mp * (\<Sum>i<length ms. (1 + r) ^ i)" for rs'
    by (rule Cons.IH)
  then show ?case
    unfolding schedule_loop.simps Let_def step
    unfolding b'_def closed_shift by simp
qed

lemma schedule_loop_principal_sum:
  assumes "\<And>j. 0 < j \<Longrightarrow> j \<le> length ms \<Longrightarrow>
             0 \<le> b * (1 + r) ^ j - mp * (\<Sum>i<j. (1 + r) ^ i)"
  shows "sum_list (map principal_paid (snd (schedule_loop mp r b ms rs)))
           = sum_list (map principal_paid rs) + b - fst (schedule_loop mp r b ms rs)"
  using assms
proof (induction ms arbitrary: b rs)
  case Nil
  then show ?case by simp
next
  case (Cons m ms)
  have "0 \<le> b * (1 + r) ^ 1 - mp * (\<Sum>i<1. (1 + r) ^ i)"
    by (rule Cons.prems) simp_all
  then have pos: "0 \<le> b * (1 + r) - mp" by simp
  define b' where "b' = b * (1 + r) - mp"
  have step: "max 0 (b - (mp - b * r)) = b'"
    using pos by (simp add: schedule_loop_step_balance b'_def)
  have paid: "mp - b * r = b - b'" by (simp add: b'_def algebra_simps)
  have "0 \<le> b' * (1 + r) ^ j - mp * (\<Sum>i<j. (1 + r) ^ i)"
    if "0 < j" "j \<le> length ms" for j
  proof -
    have "0 \<le> b * (1 + r) ^ Suc j - mp * (\<Sum>i<Suc j. (1 + r) ^ i)"
      using that by (intro Cons.prems) simp_all
    then show ?thesis unfolding b'_def closed_shift .
  qed
  then have "sum_list (map principal_paid (snd (schedule_loop mp r b' ms rs')))
           = sum_list (map principal_paid rs') + b' - fst (schedule_loop mp r b' ms rs')" for rs'
    by (rule Cons.IH)
  then show ?case
    unfolding schedule_loop.simps Let_def step by (simp add: paid)
qed

text \<open>The annuity payment in closed form.\<close>

lemma annuity_payment_eq:
  fixes P r :: real
  assumes "0 < r" "0 < n"
  shows "P * r / (1 - (1 + r) powi (- int n)) = P * r * (1 + r) ^ n / ((1 + r) ^ n - 1)"
proof -
  have q: "1 < (1 + r) ^ n" using assms by (simp add: one_less_power)
  have "(1 + r) powi (- int n) = 1 / (1 + r) ^ n"
    by (simp add: power_int_minus_divide)
  moreover have "1 - 1 / (1 + r) ^ n = ((1 + r) ^ n - 1) / (1 + r) ^ n"
    using q assms by (simp add: diff_divide_distrib)
  ultimately have "1 - (1 + r) powi (- int n) = ((1 + r) ^ n - 1) / (1 + r) ^ n"
    by simp
  then show ?thesis by simp
qed

lemma annuity_closed_form:
  fixes P r :: real
  assumes "0 < r" "0 < n"
  shows "P * (1 + r) ^ j - P * r * (1 + r) ^ n / ((1 + r) ^ n - 1) * (\<Sum>i<j. (1 + r) ^ i)
       = P * ((1 + r) ^ n - (1 + r) ^ j) / ((1 + r) ^ n - 1)"
proof -
  have q: "1 < (1 + r) ^ n" using assms by (simp add: one_less_power)
  then have d: "(1 + r) ^ n - 1 \<noteq> 0" by simp
  have g: "(\<Sum>i<j. (1 + r) ^ i) = ((1 + r) ^ j - 1) / r"
    using assms geometric_sum [of "1 + r" j] by simp
  have "P * r * (1 + r) ^ n / ((1 + r) ^ n - 1) * (((1 + r) ^ j - 1) / r)
      = P * (1 + r) ^ n * ((1 + r) ^ j - 1) / ((1 + r) ^ n - 1)"
    using assms by simp
  moreover have "P * (1 + r) ^ j = P * (1 + r) ^ j * ((1 + r) ^ n - 1) / ((1 + r) ^ n - 1)"
    using d by simp
  ultimately have "P * (1 + r) ^ j
        - P * r * (1 + r) ^ n / ((1 + r) ^ n - 1) * (\<Sum>i<j. (1 + r) ^ i)
      = (P * (1 + r) ^ j * ((1 + r) ^ n - 1) - P * (1 + r) ^ n * ((1 + r) ^ j - 1))
          / ((1 + r) ^ n - 1)"
    unfolding g by (simp add: diff_divide_distrib)
  also have "P * (1 + r) ^ j * ((1 + r) ^ n - 1) - P * (1 + r) ^ n * ((1 + r) ^ j - 1)
      = P * ((1 + r) ^ n - (1 + r) ^ j)"
    by (simp add: algebra_simps)
  finally show ?thesis .
qed

lemma annuity_closed_nonneg:
  fixes P r :: real
  assumes "0 \<le> P" "0 < r" "j \<le> n" "0 < n"
  shows "0 \<le> P * ((1 + r) ^ n - (1 + r) ^ j) / ((1 + r) ^ n - 1)"
proof -
  have q: "1 < (1 + r) ^ n" using assms by (simp add: one_less_power)
  have "(1 + r) ^ j \<le> (1 + r) ^ n" using assms by (intro power_increasing) simp_all
  then show ?thesis using q assms by (intro divide_nonneg_nonneg mult_nonneg_nonneg) simp_all
qed

lemma annuity_closed_mono:
  fixes P r :: real
  assumes "0 \<le> P" "0 < r" "0 < n"
  shows "P * ((1 + r) ^ n - (1 + r) ^ Suc j) / ((1 + r) ^ n - 1)
       \<le> P * ((1 + r) ^ n - (1 + r) ^ j) / ((1 + r) ^ n - 1)"
proof -
  have q: "1 < (1 + r) ^ n" using assms by (simp add: one_less_power)
  have "(1 + r) ^ j \<le> (1 + r) ^ Suc j" using assms by (intro power_increasing) simp_all
  then have "P * ((1 + r) ^ n - (1 + r) ^ Suc j) \<le> P * ((1 + r) ^ n - (1 + r) ^ j)"
    using assms by (intro mult_left_mono) simp_all
  then show ?thesis using q by (intro divide_right_mono) simp_all
qed

text \<open>The straight-line payment in closed form.\<close>

lemma straight_line_closed_form:
  fixes P :: real
  assumes "0 < n"
  shows "P * (1 + 0) ^ j - P / of_nat n * (\<Sum>i<j. (1 + 0) ^ i)
       = P * (of_nat n - of_nat j) / of_nat n"
  using assms by (simp add: field_simps)

lemma balance_after_annuity:
  assumes P: "0 \<le> principal loan" and a: "0 < annual_rate loan" and y: "1 \<le> years loan"
    and k: "0 \<le> k" "k \<le> months_of loan"
  shows "balance_after loan
           (principal loan * monthly_rate_of loan /
              (1 - (1 + monthly_rate_of loan) powi (- months_of loan))) k
       = principal loan
           * ((1 + monthly_rate_of loan) ^ nat (months_of loan)
                - (1 + monthly_rate_of loan) ^ nat k)
           / ((1 + monthly_rate_of loan) ^ nat (months_of loan) - 1)"
proof -
  define r where "r = monthly_rate_of loan"
  define n where "n = nat (months_of loan)"
  define mp where "mp = principal loan * r / (1 - (1 + r) powi (- months_of loan))"
  have r: "0 < r" using a by (simp add: r_def monthly_rate_of_def)
  have n: "0 < n" "months_of loan = int n" using y by (simp_all add: n_def months_of_def)
  have mp: "mp = principal loan * r * (1 + r) ^ n / ((1 + r) ^ n - 1)"
    unfolding mp_def n(2) by (rule annuity_payment_eq [OF r n(1)])
  have cf: "principal loan * (1 + r) ^ j - mp * (\<Sum>i<j. (1 + r) ^ i)
       = principal loan * ((1 + r) ^ n - (1 + r) ^ j) / ((1 + r) ^ n - 1)" for j
    unfolding mp by (rule annuity_closed_form [OF r n(1)])
  have "fst (schedule_loop mp r (principal loan) [1..k] [])
      = principal loan * (1 + r) ^ length [1..k] - mp * (\<Sum>i<length [1..k]. (1 + r) ^ i)"
  proof (rule schedule_loop_balance)
    fix j assume "0 < j" "j \<le> length [1..k]"
    then have "j \<le> n" using k n by simp
    then show "0 \<le> principal loan * (1 + r) ^ j - mp * (\<Sum>i<j. (1 + r) ^ i)"
      unfolding cf using P r n(1) by (intro annuity_closed_nonneg) simp_all
  qed
  also have "\<dots> = principal loan * ((1 + r) ^ n - (1 + r) ^ length [1..k]) / ((1 + r) ^ n - 1)"
    by (rule cf)
  finally show ?thesis
    by (simp add: balance_after_def r_def n_def mp_def)
qed

lemma balance_after_straight_line:
  assumes P: "0 \<le> principal loan" and a: "annual_rate loan = 0" and y: "1 \<le> years loan"
    and k: "0 \<le> k" "k \<le> months_of loan"
  shows "balance_after loan (principal loan / of_int (months_of loan)) k
       = principal loan * (of_int (months_of loan) - of_int k) / of_int (months_of loan)"
proof -
  define n where "n = nat (months_of loan)"
  define mp where "mp = principal loan / of_nat n"
  have r: "monthly_rate_of loan = 0" using a by (simp add: monthly_rate_of_def)
  have n: "0 < n" "months_of loan = int n" using y by (simp_all add: n_def months_of_def)
  have cf: "principal loan * (1 + 0) ^ j - mp * (\<Sum>i<j. (1 + 0) ^ i)
       = principal loan * (of_nat n - of_nat j) / of_nat n" for j
    unfolding mp_def by (rule straight_line_closed_form [OF n(1)])
  have "fst (schedule_loop mp 0 (principal loan) [1..k] [])
      = principal loan * (1 + 0) ^ length [1..k] - mp * (\<Sum>i<length [1..k]. (1 + 0) ^ i)"
  proof (rule schedule_loop_balance)
    fix j assume "0 < j" "j \<le> length [1..k]"
    then have "j \<le> n" using k n by simp
    then show "0 \<le> principal loan * (1 + 0) ^ j - mp * (\<Sum>i<j. (1 + 0) ^ i)"
      unfolding cf using P n(1) by (intro divide_nonneg_nonneg mult_nonneg_nonneg) simp_all
  qed
  also have "\<dots> = principal loan * (of_nat n - of_nat (length [1..k])) / of_nat n"
    by (rule cf)
  also have "of_nat (length [1..k]) = (of_int k :: real)" using k by simp
  finally show ?thesis
    by (simp add: balance_after_def r mp_def n(2))
qed

lemma schedule_loop_passes_balance_after:
  assumes "0 \<le> k" "k \<le> months_of loan"
  shows "schedule_loop mp (monthly_rate_of loan) (principal loan) [1..months_of loan] []
       = schedule_loop mp (monthly_rate_of loan) (balance_after loan mp k) [k + 1..months_of loan]
           (snd (schedule_loop mp (monthly_rate_of loan) (principal loan) [1..k] []))"
proof -
  have "[1..months_of loan] = [1..k] @ [k + 1..months_of loan]"
  proof (cases "k = 0")
    case True
    then show ?thesis by simp
  next
    case False
    then show ?thesis using assms by (intro upto_split2) simp_all
  qed
  then show ?thesis by (simp add: schedule_loop_append balance_after_def)
qed

lemma annuity_never_clamped:
  assumes P: "0 \<le> principal loan" and a: "0 < annual_rate loan" and y: "1 \<le> years loan"
    and j: "j \<le> nat (months_of loan)"
  shows "0 \<le> principal loan * (1 + monthly_rate_of loan) ^ j
           - principal loan * monthly_rate_of loan /
               (1 - (1 + monthly_rate_of loan) powi (- months_of loan))
             * (\<Sum>i<j. (1 + monthly_rate_of loan) ^ i)"
proof -
  define r where "r = monthly_rate_of loan"
  define n where "n = nat (months_of loan)"
  have r: "0 < r" using a by (simp add: r_def monthly_rate_of_def)
  have n: "0 < n" "months_of loan = int n" using y by (simp_all add: n_def months_of_def)
  have "principal loan * (1 + r) ^ j
           - principal loan * r / (1 - (1 + r) powi (- int n)) * (\<Sum>i<j. (1 + r) ^ i)
      = principal loan * ((1 + r) ^ n - (1 + r) ^ j) / ((1 + r) ^ n - 1)"
    unfolding annuity_payment_eq [OF r n(1)] by (rule annuity_closed_form [OF r n(1)])
  moreover have "0 \<le> principal loan * ((1 + r) ^ n - (1 + r) ^ j) / ((1 + r) ^ n - 1)"
    using P r j n(1) by (intro annuity_closed_nonneg) (simp_all add: n_def)
  ultimately show ?thesis by (simp add: r_def n(2))
qed

section \<open>Grouping by year\<close>

lemma has_columns_nonempty:
  "rs \<noteq> [] \<Longrightarrow>
   set [''year'', ''payment'', ''principal'', ''interest'', ''month'']
     \<subseteq> set (columns (pd_DataFrame rs))"
  by (simp add: pd_DataFrame_def schedule_columns_def)

lemma aggregate_schedule_nonempty:
  "rs \<noteq> [] \<Longrightarrow>
   aggregate_schedule (pd_DataFrame rs) view =
     Inr (map rename_row
            (if view = ''Mensuel'' then map monthly_average (groupby_year rs)
             else groupby_year rs))"
  unfolding aggregate_schedule_def Let_def rows_pd_DataFrame
  using has_columns_nonempty [of rs] by (simp del: set_simps)

lemma sum_groups:
  fixes f :: "'a \<Rightarrow> real"
  assumes "distinct ks" "key ` set xs \<subseteq> set ks"
  shows "sum_list (map (\<lambda>k. sum_list (map f (filter (\<lambda>x. key x = k) xs))) ks)
           = sum_list (map f xs)"
  using assms(2)
proof (induction xs)
  case Nil
  then show ?case by simp
next
  case (Cons x xs)
  have mem: "key x \<in> set ks" using Cons.prems by simp
  have "sum_list (map (\<lambda>k. sum_list (map f (filter (\<lambda>x. key x = k) (x # xs)))) ks)
      = (\<Sum>k\<in>set ks. (if key x = k then f x else 0)
                        + sum_list (map f (filter (\<lambda>x. key x = k) xs)))"
    using assms(1) by (simp add: sum_list_distinct_conv_sum_set cong: sum.cong)
       (rule sum.cong, simp_all)
  also have "\<dots> = (\<Sum>k\<in>set ks. if key x = k then f x else 0)
                 + (\<Sum>k\<in>set ks. sum_list (map f (filter (\<lambda>x. key x = k) xs)))"
    by (simp add: sum.distrib)
  also have "(\<Sum>k\<in>set ks. if key x = k then f x else 0) = f x"
    using mem by simp
  also have "(\<Sum>k\<in>set ks. sum_list (map f (filter (\<lambda>x. key x = k) xs)))
      = sum_list (map (\<lambda>k. sum_list (map f (filter (\<lambda>x. key x = k) xs))) ks)"
    using assms(1) by (simp add: sum_list_distinct_conv_sum_set)
  also have "\<dots> = sum_list (map f xs)" using Cons by simp
  finally show ?case by simp
qed

lemma years_sorted_distinct:
  "sorted (sort (remdups (map year rs)))" "distinct (sort (remdups (map year rs)))"
  "set (sort (remdups (map year rs))) = year ` set rs"
  by simp_all

lemma map_agg_year_groupby: "map agg_year (groupby_year rs) = sort (remdups (map year rs))"
  by (simp add: groupby_year_def agg_row_def Let_def comp_def)

lemma groupby_year_payment_total:
  "sum_list (map agg_payment (groupby_year rs)) = sum_list (map payment rs)"
  using sum_groups [of "sort (remdups (map year rs))" year rs payment]
  by (simp add: groupby_year_def agg_row_def group_rows_def Let_def comp_def)

lemma groupby_year_principal_total:
  "sum_list (map agg_principal (groupby_year rs)) = sum_list (map principal_paid rs)"
  using sum_groups [of "sort (remdups (map year rs))" year rs principal_paid]
  by (simp add: groupby_year_def agg_row_def group_rows_def Let_def comp_def)

lemma groupby_year_interest_total:
  "sum_list (map agg_interest (groupby_year rs)) = sum_list (map interest rs)"
  using sum_groups [of "sort (remdups (map year rs))" year rs interest]
  by (simp add: groupby_year_def agg_row_def group_rows_def Let_def comp_def)

lemma groupby_year_row:
  "a \<in> set (groupby_year rs) \<Longrightarrow>
     agg_year a \<in> year ` set rs \<and> a = agg_row rs (agg_year a)"
  by (auto simp: groupby_year_def agg_row_def Let_def)

lemma groupby_year_months_pos:
  "a \<in> set (groupby_year rs) \<Longrightarrow> 0 < agg_months a"
proof -
  assume a: "a \<in> set (groupby_year rs)"
  then obtain r where r: "r \<in> set rs" "year r = agg_year a"
    using groupby_year_row [OF a] by auto
  then have "r \<in> set (group_rows rs (agg_year a))" by (simp add: group_rows_def)
  then have "group_rows rs (agg_year a) \<noteq> []" by auto
  moreover have "agg_months a = length (group_rows rs (agg_year a))"
    using groupby_year_row [OF a] by (metis AggRow.select_convs(5) agg_row_def)
  ultimately show ?thesis by simp
qed

lemma aggregate_schedule_columns_no_rows:
  "aggregate_schedule \<lparr>columns = schedule_columns, rows = []\<rparr> view = Inr []"
  by (simp add: aggregate_schedule_def schedule_columns_def groupby_year_def)

lemma aggregate_schedule_with_columns:
  "set [''year'', ''payment'', ''principal'', ''interest'', ''month''] \<subseteq> set (columns df) \<Longrightarrow>
   \<exists>ys. aggregate_schedule df view = Inr ys"
  unfolding aggregate_schedule_def Let_def by (simp del: set_simps)

section \<open>Totality in exact arithmetic, and evaluation in binary64\<close>

lemma core_total_exact:
  assumes "0 \<le> principal loan" "0 \<le> annual_rate loan" "1 \<le> years loan" "0 \<le> ebitda"
  shows "\<exists>df ys m. compute_monthly_schedule loan = Inr df
           \<and> aggregate_schedule df view = Inr ys
           \<and> valuation_multiple ebitda sell_price = Inr m
           \<and> (m = None \<longleftrightarrow> ebitda = 0)"
proof -
  obtain mp where mp: "monthly_payment loan = Inr mp"
    using monthly_payment_total assms by blast
  define rs where
    "rs = snd (schedule_loop mp (monthly_rate_of loan) (principal loan) [1..months_of loan] [])"
  have df: "compute_monthly_schedule loan = Inr (pd_DataFrame rs)"
    using compute_monthly_schedule_Inr [OF mp] by (simp add: rs_def)
  have "length rs = nat (years loan * 12)"
    by (simp add: rs_def schedule_loop_length months_of_def)
  then have ne: "rs \<noteq> []" using assms by auto
  have "\<exists>ys. aggregate_schedule (pd_DataFrame rs) view = Inr ys"
    using aggregate_schedule_nonempty [OF ne] by simp
  moreover have "\<exists>m. valuation_multiple ebitda sell_price = Inr m \<and> (m = None \<longleftrightarrow> ebitda = 0)"
    using assms(4) by (auto simp: valuation_multiple_def float_div_def)
  ultimately show ?thesis using df by blast
qed

lemma ulp_search_unfold:
  "0 < fuel \<Longrightarrow> ulp_search fuel x u =
     (if x < u * 2 ^ 52 \<and> 1 / 2 ^ 1074 < u then ulp_search (fuel - 1) x (u / 2)
      else if u * 2 ^ 53 \<le> x then ulp_search (fuel - 1) x (u * 2)
      else u)"
  by (cases fuel) simp_all

lemma fl_one: "fl 1 = 1"
  by (simp add: fl_def ulp_search_unfold round_half_even_def)

text \<open>
  A check of \<open>fl\<close> on a familiar value: the float \<open>0.1\<close> is \<open>0x1.999999999999ap-4\<close>,
  that is \<open>3602879701896397 / 2^55\<close>.
\<close>

lemma fl_one_tenth: "fl (1 / 10) = 3602879701896397 / 2 ^ 55"
  by (simp add: fl_def ulp_search_unfold round_half_even_def Let_def)

text \<open>
  The annual rate \<open>2^-50\<close>: \<open>annual_rate / 100\<close> is the float \<open>0x1.47ae147ae147bp-57\<close>
  and \<open>monthly_rate\<close> is \<open>0x1.b4e81b4e81b4fp-61\<close>, about \<open>7.4e-19\<close>; added to 1 it rounds
  to 1.
\<close>

lemma fl_a100: "fl (1 / 112589990684262400) = 5764607523034235 / 2 ^ 109"
  by (simp add: fl_def ulp_search_unfold round_half_even_def Let_def)

lemma fl_rate:
  "fl (fl (1 / 112589990684262400) / 12) = 7686143364045647 / 2 ^ 113"
  unfolding fl_a100
  by (simp add: fl_def ulp_search_unfold round_half_even_def Let_def)

lemma fl_one_plus_rate:
  "fl (1 + 7686143364045647 / 2 ^ 113) = 1"
  by (simp add: fl_def ulp_search_unfold round_half_even_def Let_def)

lemma monthly_payment_binary64_small_rate:
  "monthly_payment_binary64 \<lparr>principal = 1000, annual_rate = 1 / 2 ^ 50, years = 1\<rparr>
     = Inl ZeroDivisionError"
proof -
  let ?L = "\<lparr>principal = 1000, annual_rate = 1 / 2 ^ 50, years = 1\<rparr>"
  let ?r = "7686143364045647 / 2 ^ 113 :: real"
  have rate: "fl (fl (annual_rate ?L / 100) / 12) = ?r"
    using fl_rate by simp
  have nz: "?r \<noteq> 0" by simp
  have base: "fl (1 + ?r) = 1" by (rule fl_one_plus_rate)
  have pw: "float_pow 1 (- months_of ?L) = Inr 1" by (simp add: float_pow_def)
  have den: "fl (1 - fl 1) = 0" unfolding fl_one by (simp add: fl_def)
  show ?thesis
    unfolding monthly_payment_binary64_def Let_def rate base pw
    using nz by (simp add: den float_div_def del: One_nat_def)
qed

text \<open>
  The same for every loan: a rounded monthly rate above 0 and below \<open>2^-53\<close> disappears
  when it is added to 1, and the denominator of line 23 is zero.
\<close>

lemma fl_one_plus_small:
  assumes "0 \<le> r" "r < 1 / 2 ^ 53"
  shows "fl (1 + r) = 1"
proof -
  have u: "ulp_search 2200 \<bar>1 + r\<bar> (1 / 2 ^ 52) = 1 / 2 ^ 52"
    using assms by (subst ulp_search_unfold) simp_all
  have lo: "(2 ^ 52 :: real) \<le> (1 + r) * 2 ^ 52" using assms by simp
  have hi: "(1 + r) * 2 ^ 52 < 2 ^ 52 + 1 / 2" using assms by simp
  have fl: "\<lfloor>(1 + r) * 2 ^ 52\<rfloor> = (2 ^ 52 :: int)"
    using lo hi by (intro floor_unique) simp_all
  have "round_half_even ((1 + r) * 2 ^ 52) = 2 ^ 52"
    unfolding round_half_even_def Let_def fl using hi by simp
  then have "round_half_even (\<bar>1 + r\<bar> / (1 / 2 ^ 52)) = 2 ^ 52"
    using assms by simp
  then show ?thesis
    unfolding fl_def Let_def u using assms by simp
qed

lemma binary64_tiny_rate_raises:
  assumes "0 < fl (fl (annual_rate loan / 100) / 12)"
    and "fl (fl (annual_rate loan / 100) / 12) < 1 / 2 ^ 53"
  shows "compute_monthly_schedule_binary64 loan = Inl ZeroDivisionError"
proof -
  define r where "r = fl (fl (annual_rate loan / 100) / 12)"
  have base: "fl (1 + r) = 1" using assms by (intro fl_one_plus_small) (simp_all add: r_def)
  have pw: "float_pow 1 (- months_of loan) = Inr 1" by (simp add: float_pow_def)
  have den: "fl (1 - fl 1) = 0" unfolding fl_one by (simp add: fl_def)
  have "monthly_payment_binary64 loan = Inl ZeroDivisionError"
    unfolding monthly_payment_binary64_def Let_def r_def [symmetric] base pw
    using assms(1) by (simp add: den float_div_def r_def)
  then show ?thesis by (simp add: compute_monthly_schedule_binary64_def)
qed

section \<open>The schedule in exact arithmetic\<close>

text \<open>
  What the formulas of \<open>compute_monthly_schedule\<close> give when nothing is rounded, for a loan
  with \<open>principal \<ge> 0\<close>, \<open>annual_rate \<ge> 0\<close> and \<open>years \<ge> 1\<close>: \<open>years * 12\<close> rows in
  month order, \<open>payment = principal + interest\<close> on every row, principal portions that add
  up to the principal, and a balance that never rises and ends at zero. The program rounds,
  and the claims below say how far it keeps to this.
\<close>

lemma schedule_length_and_order_exact:
  assumes "0 \<le> principal loan" "0 \<le> annual_rate loan" "1 \<le> years loan"
  shows "\<exists>df. compute_monthly_schedule loan = Inr df
     \<and> length (rows df) = nat (years loan * 12)
     \<and> (\<forall>i < length (rows df).
           month (rows df ! i) = int i + 1
         \<and> year (rows df ! i) = \<lceil>of_int (month (rows df ! i)) / (12 :: real)\<rceil>)"
proof -
  obtain mp where mp: "monthly_payment loan = Inr mp"
    using monthly_payment_total assms by blast
  define rs where
    "rs = snd (schedule_loop mp (monthly_rate_of loan) (principal loan) [1..months_of loan] [])"
  have df: "compute_monthly_schedule loan = Inr (pd_DataFrame rs)"
    using compute_monthly_schedule_Inr [OF mp] by (simp add: rs_def)
  have len: "length rs = nat (years loan * 12)"
    by (simp add: rs_def schedule_loop_length months_of_def)
  have ms: "map month rs = [1..months_of loan]"
    by (simp add: rs_def schedule_loop_months)
  have ok: "list_all (row_ok mp) rs"
    unfolding rs_def by (rule schedule_loop_rows_ok) simp
  have "month (rs ! i) = int i + 1 \<and> year (rs ! i) = \<lceil>of_int (month (rs ! i)) / (12 :: real)\<rceil>"
    if i: "i < length rs" for i
  proof -
    have "month (rs ! i) = map month rs ! i" using i by simp
    also have "\<dots> = [1..months_of loan] ! i" by (simp only: ms)
    also have "\<dots> = 1 + int i" using i len by (intro nth_upto) (simp add: months_of_def)
    finally have m: "month (rs ! i) = int i + 1" by simp
    have "row_ok mp (rs ! i)" using ok i by (simp add: list_all_length)
    then show ?thesis using m by (simp add: row_ok_def)
  qed
  then show ?thesis using df len by (auto simp: rows_pd_DataFrame)
qed

lemma row_payment_split_exact:
  assumes "0 \<le> principal loan" "0 \<le> annual_rate loan" "1 \<le> years loan"
  shows "\<exists>df. compute_monthly_schedule loan = Inr df \<and> rows df \<noteq> []
     \<and> (\<forall>row \<in> set (rows df). payment row = principal_paid row + interest row)"
proof -
  obtain mp where mp: "monthly_payment loan = Inr mp"
    using monthly_payment_total assms by blast
  define rs where
    "rs = snd (schedule_loop mp (monthly_rate_of loan) (principal loan) [1..months_of loan] [])"
  have df: "compute_monthly_schedule loan = Inr (pd_DataFrame rs)"
    using compute_monthly_schedule_Inr [OF mp] by (simp add: rs_def)
  have len: "length rs = nat (years loan * 12)"
    by (simp add: rs_def schedule_loop_length months_of_def)
  then have ne: "rs \<noteq> []" using assms by auto
  have ok: "list_all (row_ok mp) rs"
    unfolding rs_def by (rule schedule_loop_rows_ok) simp
  then have "\<forall>row \<in> set rs. payment row = principal_paid row + interest row"
    by (auto simp: list_all_iff row_ok_def)
  then show ?thesis using df ne by (auto simp: rows_pd_DataFrame)
qed

lemma principal_portions_sum_exact:
  assumes "0 < principal loan" "0 < annual_rate loan" "1 \<le> years loan"
  shows "\<exists>df. compute_monthly_schedule loan = Inr df
     \<and> length (rows df) = nat (years loan * 12)
     \<and> sum_list (map principal_paid (rows df)) = principal loan
     \<and> \<bar>sum_list (map principal_paid (rows df)) - principal loan\<bar>
          \<le> principal loan / 10 ^ 6"
proof -
  define r where "r = monthly_rate_of loan"
  define mp where
    "mp = principal loan * r / (1 - (1 + r) powi (- months_of loan))"
  have P: "0 \<le> principal loan" using assms by simp
  have mp: "monthly_payment loan = Inr mp"
    using monthly_payment_annuity assms by (simp add: mp_def r_def)
  define rs where
    "rs = snd (schedule_loop mp r (principal loan) [1..months_of loan] [])"
  have df: "compute_monthly_schedule loan = Inr (pd_DataFrame rs)"
    using compute_monthly_schedule_Inr [OF mp] by (simp add: rs_def r_def)
  have len: "length rs = nat (years loan * 12)"
    by (simp add: rs_def schedule_loop_length months_of_def)
  have "sum_list (map principal_paid rs)
      = sum_list (map principal_paid ([] :: ScheduleRow list)) + principal loan
          - fst (schedule_loop mp r (principal loan) [1..months_of loan] [])"
    unfolding rs_def
  proof (rule schedule_loop_principal_sum)
    fix j assume "0 < j" "j \<le> length [1..months_of loan]"
    then have "j \<le> nat (months_of loan)" by simp
    then show "0 \<le> principal loan * (1 + r) ^ j - mp * (\<Sum>i<j. (1 + r) ^ i)"
      unfolding mp_def r_def by (rule annuity_never_clamped [OF P assms(2,3)])
  qed
  moreover have "fst (schedule_loop mp r (principal loan) [1..months_of loan] []) = 0"
    using balance_after_annuity [OF P assms(2,3), of "months_of loan"] assms(3)
    by (simp add: balance_after_def mp_def r_def months_of_def)
  ultimately have s: "sum_list (map principal_paid rs) = principal loan" by simp
  show ?thesis using df len s assms(1) by (auto simp: rows_pd_DataFrame)
qed

lemma balance_non_increasing_and_cleared_exact:
  assumes "0 \<le> principal loan" "0 \<le> annual_rate loan" "1 \<le> years loan"
  shows "\<exists>mp. monthly_payment loan = Inr mp
     \<and> balance_after loan mp 0 = principal loan
     \<and> (\<forall>k. 0 \<le> k \<and> k < months_of loan \<longrightarrow>
            balance_after loan mp (k + 1) \<le> balance_after loan mp k)
     \<and> (\<forall>k. 0 \<le> k \<and> k \<le> months_of loan \<longrightarrow> 0 \<le> balance_after loan mp k)
     \<and> balance_after loan mp (months_of loan) = 0"
proof (cases "annual_rate loan = 0")
  case True
  define n where "n = months_of loan"
  define mp where "mp = principal loan / of_int n"
  have n: "0 < n" using assms by (simp add: n_def months_of_def)
  have mp: "monthly_payment loan = Inr mp"
    using monthly_payment_zero_rate [OF True assms(3)] by (simp add: mp_def n_def months_of_def)
  have B: "balance_after loan mp k = principal loan * (of_int n - of_int k) / of_int n"
    if "0 \<le> k" "k \<le> n" for k
    using balance_after_straight_line [OF assms(1) True assms(3), of k] that
    by (simp add: mp_def n_def)
  have b0: "balance_after loan mp 0 = principal loan"
    by (simp add: balance_after_def)
  have mono: "balance_after loan mp (k + 1) \<le> balance_after loan mp k"
    if "0 \<le> k" "k < n" for k
  proof -
    have "principal loan * (of_int n - of_int (k + 1)) \<le> principal loan * (of_int n - of_int k)"
      using assms(1) by (intro mult_left_mono) simp_all
    then have "principal loan * (of_int n - of_int (k + 1)) / of_int n
        \<le> principal loan * (of_int n - of_int k) / of_int n"
      using n by (intro divide_right_mono) simp_all
    then show ?thesis using that by (simp add: B)
  qed
  have nonneg: "0 \<le> balance_after loan mp k" if "0 \<le> k" "k \<le> n" for k
  proof -
    have "0 \<le> principal loan * (of_int n - of_int k) / of_int n"
      using assms(1) n that by (intro divide_nonneg_nonneg mult_nonneg_nonneg) simp_all
    then show ?thesis using that by (simp add: B)
  qed
  have fin: "balance_after loan mp n = 0" using n by (simp add: B)
  show ?thesis using mp b0 mono nonneg fin unfolding n_def by blast
next
  case False
  then have a: "0 < annual_rate loan" using assms by simp
  define r where "r = monthly_rate_of loan"
  define n where "n = nat (months_of loan)"
  define mp where
    "mp = principal loan * r / (1 - (1 + r) powi (- months_of loan))"
  have r: "0 < r" using a by (simp add: r_def monthly_rate_of_def)
  have n: "0 < n" "months_of loan = int n" using assms by (simp_all add: n_def months_of_def)
  have mp: "monthly_payment loan = Inr mp"
    using monthly_payment_annuity [OF a assms(3)] by (simp add: mp_def r_def)
  have B: "balance_after loan mp k
      = principal loan * ((1 + r) ^ n - (1 + r) ^ nat k) / ((1 + r) ^ n - 1)"
    if "0 \<le> k" "k \<le> months_of loan" for k
    using balance_after_annuity [OF assms(1) a assms(3) that]
    by (simp add: mp_def r_def n_def)
  have b0: "balance_after loan mp 0 = principal loan"
    by (simp add: balance_after_def)
  have mono: "balance_after loan mp (k + 1) \<le> balance_after loan mp k"
    if "0 \<le> k" "k < months_of loan" for k
  proof -
    have "nat (k + 1) = Suc (nat k)" using that by simp
    then show ?thesis
      using annuity_closed_mono [OF assms(1) r n(1), of "nat k"] that by (simp add: B)
  qed
  have nonneg: "0 \<le> balance_after loan mp k" if "0 \<le> k" "k \<le> months_of loan" for k
  proof -
    have "nat k \<le> n" using that by (simp add: n_def)
    then show ?thesis
      using annuity_closed_nonneg [OF assms(1) r _ n(1), of "nat k"] that by (simp add: B)
  qed
  have fin: "balance_after loan mp (months_of loan) = 0"
    using n by (simp add: B)
  show ?thesis using mp b0 mono nonneg fin by blast
qed

section \<open>Rounding error of \<open>fl\<close>\<close>







section \<open>The binary64 schedule of a loan at a very small rate\<close>

text \<open>
  The loan of 1000 over one year at the annual rate \<open>225 / 2^49\<close>, about \<open>4e-13\<close> percent.
  The monthly rate is \<open>3 / 2^53\<close>; \<open>1 + monthly_rate\<close> rounds to \<open>1 + 2^-51\<close>, a third more
  than the rate, and the payment comes out as 62.5 where the annuity payment is 83.33. The
  lemmas run the twelve iterations of the loop one float operation at a time.
\<close>

lemmas fl_eval = fl_def ulp_search_unfold round_half_even_def Let_def

lemma schedule_loop_binary64_step:
  assumes "fl (b * r) = i" "fl (mp - i) = p" "fl (b - p) = b'" "0 \<le> b'"
    and "\<lceil>fl (of_int m / 12)\<rceil> = y"
  shows "schedule_loop_binary64 mp r b (m # ms) rs =
     schedule_loop_binary64 mp r b' ms
       (rs @ [\<lparr>month = m, year = y, payment = mp, principal_paid = p, interest = i\<rparr>])"
  using assms by (simp add: Let_def)

lemma small_rate_month_1:
  "fl (1000 * (3 / 2 ^ 53)) = 375 / 2 ^ 50"
  "fl (125 / 2 - 375 / 2 ^ 50) = 8796093022207953 / 2 ^ 47"
  "fl (1000 - 8796093022207953 / 2 ^ 47) = 8246337208320003 / 2 ^ 43"
  "\<lceil>fl (of_int 1 / 12)\<rceil> = 1"
  "(0 :: real) \<le> 8246337208320003 / 2 ^ 43"
  by (simp_all add: fl_eval ceiling_eq_iff)

lemma small_rate_month_2:
  "fl (8246337208320003 / 2 ^ 43 * (3 / 2 ^ 53)) = 3092376453120001 / 2 ^ 93"
  "fl (125 / 2 - 3092376453120001 / 2 ^ 93) = 2199023255551989 / 2 ^ 45"
  "fl (8246337208320003 / 2 ^ 43 - 2199023255551989 / 2 ^ 45) = 3848290697216003 / 2 ^ 42"
  "\<lceil>fl (of_int 2 / 12)\<rceil> = 1"
  "(0 :: real) \<le> 3848290697216003 / 2 ^ 42"
  by (simp_all add: fl_eval ceiling_eq_iff)

lemma small_rate_month_3:
  "fl (3848290697216003 / 2 ^ 42 * (3 / 2 ^ 53)) = 1443109011456001 / 2 ^ 92"
  "fl (125 / 2 - 1443109011456001 / 2 ^ 92) = 8796093022207959 / 2 ^ 47"
  "fl (3848290697216003 / 2 ^ 42 - 8796093022207959 / 2 ^ 47) = 7146825580544009 / 2 ^ 43"
  "\<lceil>fl (of_int 3 / 12)\<rceil> = 1"
  "(0 :: real) \<le> 7146825580544009 / 2 ^ 43"
  by (simp_all add: fl_eval ceiling_eq_iff)

lemma small_rate_month_4:
  "fl (7146825580544009 / 2 ^ 43 * (3 / 2 ^ 53)) = 5360119185408007 / 2 ^ 94"
  "fl (125 / 2 - 5360119185408007 / 2 ^ 94) = 4398046511103981 / 2 ^ 46"
  "fl (7146825580544009 / 2 ^ 43 - 4398046511103981 / 2 ^ 46) = 6597069766656011 / 2 ^ 43"
  "\<lceil>fl (of_int 4 / 12)\<rceil> = 1"
  "(0 :: real) \<le> 6597069766656011 / 2 ^ 43"
  by (simp_all add: fl_eval ceiling_eq_iff)

lemma small_rate_month_5:
  "fl (6597069766656011 / 2 ^ 43 * (3 / 2 ^ 53)) = 618475290624001 / 2 ^ 91"
  "fl (125 / 2 - 618475290624001 / 2 ^ 91) = 8796093022207965 / 2 ^ 47"
  "fl (6597069766656011 / 2 ^ 43 - 8796093022207965 / 2 ^ 47) = 6047313952768013 / 2 ^ 43"
  "\<lceil>fl (of_int 5 / 12)\<rceil> = 1"
  "(0 :: real) \<le> 6047313952768013 / 2 ^ 43"
  by (simp_all add: fl_eval ceiling_eq_iff)

lemma small_rate_month_6:
  "fl (6047313952768013 / 2 ^ 43 * (3 / 2 ^ 53)) = 2267742732288005 / 2 ^ 93"
  "fl (125 / 2 - 2267742732288005 / 2 ^ 93) = 274877906943999 / 2 ^ 42"
  "fl (6047313952768013 / 2 ^ 43 - 274877906943999 / 2 ^ 42) = 5497558138880015 / 2 ^ 43"
  "\<lceil>fl (of_int 6 / 12)\<rceil> = 1"
  "(0 :: real) \<le> 5497558138880015 / 2 ^ 43"
  by (simp_all add: fl_eval ceiling_eq_iff)

lemma small_rate_month_7:
  "fl (5497558138880015 / 2 ^ 43 * (3 / 2 ^ 53)) = 4123168604160011 / 2 ^ 94"
  "fl (125 / 2 - 4123168604160011 / 2 ^ 94) = 8796093022207971 / 2 ^ 47"
  "fl (5497558138880015 / 2 ^ 43 - 8796093022207971 / 2 ^ 47) = 4947802324992017 / 2 ^ 43"
  "\<lceil>fl (of_int 7 / 12)\<rceil> = 1"
  "(0 :: real) \<le> 4947802324992017 / 2 ^ 43"
  by (simp_all add: fl_eval ceiling_eq_iff)

lemma small_rate_month_8:
  "fl (4947802324992017 / 2 ^ 43 * (3 / 2 ^ 53)) = 3710851743744013 / 2 ^ 94"
  "fl (125 / 2 - 3710851743744013 / 2 ^ 94) = 4398046511103987 / 2 ^ 46"
  "fl (4947802324992017 / 2 ^ 43 - 4398046511103987 / 2 ^ 46) = 8796093022208037 / 2 ^ 44"
  "\<lceil>fl (of_int 8 / 12)\<rceil> = 1"
  "(0 :: real) \<le> 8796093022208037 / 2 ^ 44"
  by (simp_all add: fl_eval ceiling_eq_iff)

lemma small_rate_month_9:
  "fl (8796093022208037 / 2 ^ 44 * (3 / 2 ^ 53)) = 1649267441664007 / 2 ^ 93"
  "fl (125 / 2 - 1649267441664007 / 2 ^ 93) = 8796093022207977 / 2 ^ 47"
  "fl (8796093022208037 / 2 ^ 44 - 8796093022207977 / 2 ^ 47) = 962072674304005 / 2 ^ 41"
  "\<lceil>fl (of_int 9 / 12)\<rceil> = 1"
  "(0 :: real) \<le> 962072674304005 / 2 ^ 41"
  by (simp_all add: fl_eval ceiling_eq_iff)

lemma small_rate_month_10:
  "fl (962072674304005 / 2 ^ 41 * (3 / 2 ^ 53)) = 2886218022912015 / 2 ^ 94"
  "fl (125 / 2 - 2886218022912015 / 2 ^ 94) = 8796093022207979 / 2 ^ 47"
  "fl (962072674304005 / 2 ^ 41 - 8796093022207979 / 2 ^ 47) = 6597069766656043 / 2 ^ 44"
  "\<lceil>fl (of_int 10 / 12)\<rceil> = 1"
  "(0 :: real) \<le> 6597069766656043 / 2 ^ 44"
  by (simp_all add: fl_eval ceiling_eq_iff)

lemma small_rate_month_11:
  "fl (6597069766656043 / 2 ^ 44 * (3 / 2 ^ 53)) = 154618822656001 / 2 ^ 90"
  "fl (125 / 2 - 154618822656001 / 2 ^ 90) = 4398046511103991 / 2 ^ 46"
  "fl (6597069766656043 / 2 ^ 44 - 4398046511103991 / 2 ^ 46) = 5497558138880045 / 2 ^ 44"
  "\<lceil>fl (of_int 11 / 12)\<rceil> = 1"
  "(0 :: real) \<le> 5497558138880045 / 2 ^ 44"
  by (simp_all add: fl_eval ceiling_eq_iff)

lemma small_rate_month_12:
  "fl (5497558138880045 / 2 ^ 44 * (3 / 2 ^ 53)) = 2061584302080017 / 2 ^ 94"
  "fl (125 / 2 - 2061584302080017 / 2 ^ 94) = 8796093022207985 / 2 ^ 47"
  "fl (5497558138880045 / 2 ^ 44 - 8796093022207985 / 2 ^ 47) = 4398046511104047 / 2 ^ 44"
  "\<lceil>fl (of_int 12 / 12)\<rceil> = 1"
  "(0 :: real) \<le> 4398046511104047 / 2 ^ 44"
  by (simp_all add: fl_eval ceiling_eq_iff)

lemma small_rate_loop:
  "schedule_loop_binary64 (125 / 2) (3 / 2 ^ 53) 1000 [1..12] [] =
     (4398046511104047 / 2 ^ 44,
      [\<lparr>month = 1, year = 1, payment = 125 / 2,
        principal_paid = 8796093022207953 / 2 ^ 47,
        interest = 375 / 2 ^ 50\<rparr>,
       \<lparr>month = 2, year = 1, payment = 125 / 2,
        principal_paid = 2199023255551989 / 2 ^ 45,
        interest = 3092376453120001 / 2 ^ 93\<rparr>,
       \<lparr>month = 3, year = 1, payment = 125 / 2,
        principal_paid = 8796093022207959 / 2 ^ 47,
        interest = 1443109011456001 / 2 ^ 92\<rparr>,
       \<lparr>month = 4, year = 1, payment = 125 / 2,
        principal_paid = 4398046511103981 / 2 ^ 46,
        interest = 5360119185408007 / 2 ^ 94\<rparr>,
       \<lparr>month = 5, year = 1, payment = 125 / 2,
        principal_paid = 8796093022207965 / 2 ^ 47,
        interest = 618475290624001 / 2 ^ 91\<rparr>,
       \<lparr>month = 6, year = 1, payment = 125 / 2,
        principal_paid = 274877906943999 / 2 ^ 42,
        interest = 2267742732288005 / 2 ^ 93\<rparr>,
       \<lparr>month = 7, year = 1, payment = 125 / 2,
        principal_paid = 8796093022207971 / 2 ^ 47,
        interest = 4123168604160011 / 2 ^ 94\<rparr>,
       \<lparr>month = 8, year = 1, payment = 125 / 2,
        principal_paid = 4398046511103987 / 2 ^ 46,
        interest = 3710851743744013 / 2 ^ 94\<rparr>,
       \<lparr>month = 9, year = 1, payment = 125 / 2,
        principal_paid = 8796093022207977 / 2 ^ 47,
        interest = 1649267441664007 / 2 ^ 93\<rparr>,
       \<lparr>month = 10, year = 1, payment = 125 / 2,
        principal_paid = 8796093022207979 / 2 ^ 47,
        interest = 2886218022912015 / 2 ^ 94\<rparr>,
       \<lparr>month = 11, year = 1, payment = 125 / 2,
        principal_paid = 4398046511103991 / 2 ^ 46,
        interest = 154618822656001 / 2 ^ 90\<rparr>,
       \<lparr>month = 12, year = 1, payment = 125 / 2,
        principal_paid = 8796093022207985 / 2 ^ 47,
        interest = 2061584302080017 / 2 ^ 94\<rparr>])"
proof -
  have u: "[1..12 :: int] = [1, 2, 3, 4, 5, 6, 7, 8, 9, 10, 11, 12]"
    by (simp add: upto_rec1)
  note s =
    schedule_loop_binary64_step [OF small_rate_month_1(1,2,3,5,4)]
    schedule_loop_binary64_step [OF small_rate_month_2(1,2,3,5,4)]
    schedule_loop_binary64_step [OF small_rate_month_3(1,2,3,5,4)]
    schedule_loop_binary64_step [OF small_rate_month_4(1,2,3,5,4)]
    schedule_loop_binary64_step [OF small_rate_month_5(1,2,3,5,4)]
    schedule_loop_binary64_step [OF small_rate_month_6(1,2,3,5,4)]
    schedule_loop_binary64_step [OF small_rate_month_7(1,2,3,5,4)]
    schedule_loop_binary64_step [OF small_rate_month_8(1,2,3,5,4)]
    schedule_loop_binary64_step [OF small_rate_month_9(1,2,3,5,4)]
    schedule_loop_binary64_step [OF small_rate_month_10(1,2,3,5,4)]
    schedule_loop_binary64_step [OF small_rate_month_11(1,2,3,5,4)]
    schedule_loop_binary64_step [OF small_rate_month_12(1,2,3,5,4)]
  show ?thesis
    unfolding u
    by (simp only: s schedule_loop_binary64.simps(1) append_Nil append_Cons)
qed


lemma small_rate_rate: "fl (fl (225 / 2 ^ 49 / 100) / 12) = 3 / 2 ^ 53"
  by (simp add: fl_eval)

lemma small_rate_base: "fl (1 + 3 / 2 ^ 53) = 1 + 1 / 2 ^ 51"
  by (simp add: fl_eval)

lemma small_rate_power: "(1 + 1 / 2 ^ 51 :: real) powi (- 12) = 2 ^ 612 / (2 ^ 51 + 1) ^ 12"
proof -
  have "(1 + 1 / 2 ^ 51 :: real) = (2 ^ 51 + 1) / 2 ^ 51" by simp
  then have "(1 + 1 / 2 ^ 51 :: real) powi (- 12) = 1 / (((2 ^ 51 + 1) / 2 ^ 51) ^ 12)"
    by (simp only: power_int_minus_divide power_int_numeral)
  also have "\<dots> = 2 ^ 612 / (2 ^ 51 + 1) ^ 12"
    by (simp only: power_divide divide_divide_eq_right mult_1 power_mult [symmetric]) simp
  finally show ?thesis .
qed

lemma small_rate_power_rounded: "fl (2 ^ 612 / (2 ^ 51 + 1) ^ 12) = 562949953421309 / 2 ^ 49"
  by (simp add: fl_eval)

lemma small_rate_denominator: "fl (1 - 562949953421309 / 2 ^ 49) = 3 / 2 ^ 49"
  by (simp add: fl_eval)

lemma small_rate_numerator: "fl (1000 * (3 / 2 ^ 53)) = 375 / 2 ^ 50"
  by (simp add: fl_eval)

lemma small_rate_quotient: "fl (375 / 2 ^ 50 / (3 / 2 ^ 49)) = 125 / 2"
  by (simp add: fl_eval)

lemma small_rate_payment:
  "monthly_payment_binary64 \<lparr>principal = 1000, annual_rate = 225 / 2 ^ 49, years = 1\<rparr>
     = Inr (125 / 2)"
proof -
  let ?L = "\<lparr>principal = 1000, annual_rate = 225 / 2 ^ 49, years = 1\<rparr>"
  have rate: "fl (fl (annual_rate ?L / 100) / 12) = 3 / 2 ^ 53"
    using small_rate_rate by simp
  have nz: "(3 / 2 ^ 53 :: real) \<noteq> 0" by simp
  have pw: "float_pow (1 + 1 / 2 ^ 51) (- months_of ?L) = Inr (2 ^ 612 / (2 ^ 51 + 1) ^ 12)"
    unfolding float_pow_def using small_rate_power by (simp add: months_of_def)
  have num: "fl (principal ?L * (3 / 2 ^ 53)) = 375 / 2 ^ 50"
    using small_rate_numerator by simp
  have dv: "float_div (375 / 2 ^ 50) (3 / 2 ^ 49) = Inr (375 / 2 ^ 50 / (3 / 2 ^ 49))"
    by (simp add: float_div_def)
  show ?thesis
    unfolding monthly_payment_binary64_def Let_def rate small_rate_base pw
    using nz
    by (simp only: if_False sum.case small_rate_power_rounded small_rate_denominator num dv
        map_sum.simps small_rate_quotient id_apply)
qed

lemma small_rate_schedule:
  "compute_monthly_schedule_binary64 \<lparr>principal = 1000, annual_rate = 225 / 2 ^ 49, years = 1\<rparr>
     = Inr (pd_DataFrame
              (snd (schedule_loop_binary64 (125 / 2) (3 / 2 ^ 53) 1000 [1..12] [])))"
proof -
  let ?L = "\<lparr>principal = 1000, annual_rate = 225 / 2 ^ 49, years = 1\<rparr>"
  have rate: "fl (fl (annual_rate ?L / 100) / 12) = 3 / 2 ^ 53"
    using small_rate_rate by simp
  have m: "months_of ?L = 12" by (simp add: months_of_def)
  have P: "principal ?L = 1000" by simp
  show ?thesis
    unfolding compute_monthly_schedule_binary64_def small_rate_payment rate m P
    by (simp only: sum.case)
qed

lemma small_rate_rows:
  "length (snd (schedule_loop_binary64 (125 / 2) (3 / 2 ^ 53) 1000 [1..12] [])) = 12"
  "payment (hd (snd (schedule_loop_binary64 (125 / 2) (3 / 2 ^ 53) 1000 [1..12] []))) = 125 / 2"
  "interest (hd (snd (schedule_loop_binary64 (125 / 2) (3 / 2 ^ 53) 1000 [1..12] [])))
     = 375 / 2 ^ 50"
  "sum_list (map principal_paid
     (snd (schedule_loop_binary64 (125 / 2) (3 / 2 ^ 53) 1000 [1..12] [])))
     = 105553116266495631 / 2 ^ 47"
  "fst (schedule_loop_binary64 (125 / 2) (3 / 2 ^ 53) 1000 [1..12] [])
     = 4398046511104047 / 2 ^ 44"
  unfolding small_rate_loop by simp_all

lemma tiny_rate_rate:
  "fl (fl (1 / 2 ^ 60 / 100) / 12) = 7686143364045647 / 2 ^ 123"
  by (simp add: fl_eval)

section \<open>Claims about \<open>compute_monthly_schedule\<close>\<close>

text \<open>
  Claim C2. The claim is that for every loan with \<open>principal \<ge> 0\<close>, \<open>annual_rate \<ge> 0\<close> and
  \<open>years \<ge> 1\<close> the function returns exactly \<open>years * 12\<close> rows, in month order, each with
  \<open>year = ceil(month / 12)\<close>. In exact arithmetic it does (lemma
  \<open>schedule_length_and_order_exact\<close>). The program does not: for 250000 over 30 years at the
  annual rate \<open>2^-60\<close> the rounded denominator of line 23 is zero, the function raises
  \<open>ZeroDivisionError\<close>, and no frame of 360 rows is returned.
\<close>

theorem binary64_no_schedule_at_tiny_rate:
  "compute_monthly_schedule_binary64 \<lparr>principal = 250000, annual_rate = 1 / 2 ^ 60, years = 30\<rparr>
     = Inl ZeroDivisionError
   \<and> \<not> (\<exists>df. compute_monthly_schedule_binary64
                  \<lparr>principal = 250000, annual_rate = 1 / 2 ^ 60, years = 30\<rparr> = Inr df
             \<and> length (rows df) = 360)"
proof -
  let ?L = "\<lparr>principal = 250000, annual_rate = 1 / 2 ^ 60, years = 30\<rparr>"
  have rate: "fl (fl (annual_rate ?L / 100) / 12) = 7686143364045647 / 2 ^ 123"
    using tiny_rate_rate by simp
  have pos: "0 < fl (fl (annual_rate ?L / 100) / 12)" unfolding rate by simp
  have small: "fl (fl (annual_rate ?L / 100) / 12) < 1 / 2 ^ 53" unfolding rate by simp
  have "compute_monthly_schedule_binary64 ?L = Inl ZeroDivisionError"
    using pos small by (rule binary64_tiny_rate_raises)
  then show ?thesis by simp
qed



text \<open>
  Claim C5. For a loan with \<open>annual_rate = 0\<close>, \<open>principal \<ge> 0\<close> and \<open>years \<ge> 1\<close>, the schedule
  has \<open>years * 12\<close> rows, each with \<open>payment = principal / (years * 12)\<close> and
  \<open>interest = 0\<close>. The witness is the loan of 120000 over 10 years: 1000 every month.
\<close>

theorem zero_rate_straight_line:
  assumes "annual_rate loan = 0" "0 \<le> principal loan" "1 \<le> years loan"
  shows "\<exists>df. compute_monthly_schedule loan = Inr df
     \<and> length (rows df) = nat (years loan * 12)
     \<and> (\<forall>row \<in> set (rows df).
           payment row = principal loan / of_int (years loan * 12) \<and> interest row = 0)"
proof -
  define mp where "mp = principal loan / of_int (years loan * 12)"
  have mp: "monthly_payment loan = Inr mp"
    using monthly_payment_zero_rate assms by (simp add: mp_def)
  have r: "monthly_rate_of loan = 0" using assms by (simp add: monthly_rate_of_def)
  define rs where
    "rs = snd (schedule_loop mp 0 (principal loan) [1..months_of loan] [])"
  have df: "compute_monthly_schedule loan = Inr (pd_DataFrame rs)"
    using compute_monthly_schedule_Inr [OF mp] by (simp add: rs_def r)
  have len: "length rs = nat (years loan * 12)"
    by (simp add: rs_def schedule_loop_length months_of_def)
  have ok: "list_all (row_ok mp) rs"
    unfolding rs_def by (rule schedule_loop_rows_ok) simp
  have z: "list_all (\<lambda>x. interest x = 0) rs"
    unfolding rs_def by (rule schedule_loop_interest0) simp
  have "\<forall>row \<in> set rs. payment row = mp \<and> interest row = 0"
    using ok z by (simp add: list_all_iff row_ok_def)
  then show ?thesis using df len by (auto simp: rows_pd_DataFrame mp_def)
qed

theorem zero_rate_straight_line_witness:
  "\<exists>df. compute_monthly_schedule \<lparr>principal = 120000, annual_rate = 0, years = 10\<rparr> = Inr df
     \<and> length (rows df) = 120
     \<and> payment (hd (rows df)) = 1000 \<and> interest (hd (rows df)) = 0
     \<and> payment (last (rows df)) = 1000 \<and> interest (last (rows df)) = 0"
proof -
  obtain df where df: "compute_monthly_schedule \<lparr>principal = 120000, annual_rate = 0, years = 10\<rparr> = Inr df"
     and len: "length (rows df) = 120"
     and all: "\<forall>row \<in> set (rows df). payment row = 1000 \<and> interest row = 0"
    using zero_rate_straight_line [of "\<lparr>principal = 120000, annual_rate = 0, years = 10\<rparr>"]
    by auto
  have ne: "rows df \<noteq> []" using len by auto
  then have "hd (rows df) \<in> set (rows df)" "last (rows df) \<in> set (rows df)" by simp_all
  then show ?thesis using df len all by blast
qed

text \<open>
  Claim C1. The claim is that for \<open>principal > 0\<close>, \<open>annual_rate > 0\<close> and \<open>years \<ge> 1\<close> the
  principal portions add up to the principal within a relative tolerance of one millionth.
  In exact arithmetic they add up to exactly the principal (lemma
  \<open>principal_portions_sum_exact\<close>). The program does not keep to it: for 1000 over one year
  at the annual rate \<open>225 / 2^49\<close> it pays 62.5 a month and the twelve principal portions add
  up to just under 750.
\<close>

theorem binary64_principal_portions_fall_short:
  "\<exists>df. compute_monthly_schedule_binary64
            \<lparr>principal = 1000, annual_rate = 225 / 2 ^ 49, years = 1\<rparr> = Inr df
     \<and> length (rows df) = 12
     \<and> payment (hd (rows df)) = 125 / 2
     \<and> sum_list (map principal_paid (rows df)) = 105553116266495631 / 2 ^ 47
     \<and> sum_list (map principal_paid (rows df)) < 750"
proof -
  let ?rs = "snd (schedule_loop_binary64 (125 / 2) (3 / 2 ^ 53) 1000 [1..12] [])"
  have lt: "sum_list (map principal_paid ?rs) < 750"
    unfolding small_rate_rows(4) by simp
  show ?thesis
    by (rule exI [of _ "pd_DataFrame ?rs"], unfold rows_pd_DataFrame)
       (intro conjI small_rate_schedule small_rate_rows(1,2,4) lt)
qed

text \<open>
  Claim C4. The claim is that the loop-carried balance never rises, is never below zero, and is
  about zero after the last month. In exact arithmetic it is exactly zero then (lemma
  \<open>balance_non_increasing_and_cleared_exact\<close>). The program does not keep to it: for 1000
  over one year at the annual rate \<open>225 / 2^49\<close> the balance after the twelfth month is just
  over 250.
\<close>

theorem binary64_final_balance_left:
  "monthly_payment_binary64 \<lparr>principal = 1000, annual_rate = 225 / 2 ^ 49, years = 1\<rparr>
     = Inr (125 / 2)
   \<and> balance_after_binary64 \<lparr>principal = 1000, annual_rate = 225 / 2 ^ 49, years = 1\<rparr>
       (125 / 2) 12 = 4398046511104047 / 2 ^ 44
   \<and> 250 < balance_after_binary64 \<lparr>principal = 1000, annual_rate = 225 / 2 ^ 49, years = 1\<rparr>
       (125 / 2) 12"
proof -
  let ?L = "\<lparr>principal = 1000, annual_rate = 225 / 2 ^ 49, years = 1\<rparr>"
  have rate: "fl (fl (annual_rate ?L / 100) / 12) = 3 / 2 ^ 53"
    using small_rate_rate by simp
  have P: "principal ?L = 1000" by simp
  have b: "balance_after_binary64 ?L (125 / 2) 12 = 4398046511104047 / 2 ^ 44"
    unfolding balance_after_binary64_def rate P by (rule small_rate_rows(5))
  have "250 < balance_after_binary64 ?L (125 / 2) 12" unfolding b by simp
  then show ?thesis using small_rate_payment b by blast
qed

section \<open>Claims about \<open>aggregate_schedule\<close>\<close>

text \<open>
  Claim C6. For every schedule with at least one row and the view \<open>"Annuel"\<close>,
  \<open>aggregate_schedule\<close> returns one row per distinct year, the years ascending; the three
  amounts of a row are the sums over the rows of that year; so the yearly payments add up
  to the monthly payments, and likewise the principal and the interest.
\<close>

theorem aggregate_totals_per_year:
  assumes "rs \<noteq> []"
  shows "\<exists>ys. aggregate_schedule (pd_DataFrame rs) ''Annuel'' = Inr ys
     \<and> sorted (map Annee ys) \<and> distinct (map Annee ys)
     \<and> set (map Annee ys) = year ` set rs
     \<and> (\<forall>y \<in> set ys.
           Remboursement_du_pret y = sum_list (map payment (filter (\<lambda>r. year r = Annee y) rs))
         \<and> Principal y = sum_list (map principal_paid (filter (\<lambda>r. year r = Annee y) rs))
         \<and> Interet y = sum_list (map interest (filter (\<lambda>r. year r = Annee y) rs)))
     \<and> sum_list (map Remboursement_du_pret ys) = sum_list (map payment rs)
     \<and> sum_list (map Principal ys) = sum_list (map principal_paid rs)
     \<and> sum_list (map Interet ys) = sum_list (map interest rs)"
proof -
  define ys where "ys = map rename_row (groupby_year rs)"
  have res: "aggregate_schedule (pd_DataFrame rs) ''Annuel'' = Inr ys"
    using aggregate_schedule_nonempty [OF assms, of "''Annuel''"] by (simp add: ys_def)
  have yrs: "map Annee ys = sort (remdups (map year rs))"
    using map_agg_year_groupby [of rs] by (simp add: ys_def rename_row_def comp_def)
  have s: "sorted (map Annee ys)" "distinct (map Annee ys)" "set (map Annee ys) = year ` set rs"
    unfolding yrs by (rule years_sorted_distinct)+
  have each: "Remboursement_du_pret y = sum_list (map payment (filter (\<lambda>r. year r = Annee y) rs))
         \<and> Principal y = sum_list (map principal_paid (filter (\<lambda>r. year r = Annee y) rs))
         \<and> Interet y = sum_list (map interest (filter (\<lambda>r. year r = Annee y) rs))"
    if yin: "y \<in> set ys" for y
  proof -
    obtain a where a: "a \<in> set (groupby_year rs)" "y = rename_row a"
      using yin by (auto simp: ys_def)
    have "a = agg_row rs (agg_year a)" using groupby_year_row [OF a(1)] by simp
    then have "agg_payment a = sum_list (map payment (group_rows rs (agg_year a)))"
      "agg_principal a = sum_list (map principal_paid (group_rows rs (agg_year a)))"
      "agg_interest a = sum_list (map interest (group_rows rs (agg_year a)))"
      by (metis AggRow.select_convs agg_row_def)+
    then show ?thesis using a(2) by (simp add: rename_row_def group_rows_def)
  qed
  have t1: "sum_list (map Remboursement_du_pret ys) = sum_list (map payment rs)"
    using groupby_year_payment_total [of rs] by (simp add: ys_def rename_row_def comp_def)
  have t2: "sum_list (map Principal ys) = sum_list (map principal_paid rs)"
    using groupby_year_principal_total [of rs] by (simp add: ys_def rename_row_def comp_def)
  have t3: "sum_list (map Interet ys) = sum_list (map interest rs)"
    using groupby_year_interest_total [of rs] by (simp add: ys_def rename_row_def comp_def)
  show ?thesis using res s each t1 t2 t3 by blast
qed

theorem aggregate_totals_per_year_witness:
  "\<exists>ys. aggregate_schedule
          (pd_DataFrame
             [\<lparr>month = 12, year = 1, payment = 10, principal_paid = 7, interest = 3\<rparr>,
              \<lparr>month = 13, year = 2, payment = 10, principal_paid = 8, interest = 2\<rparr>,
              \<lparr>month = 14, year = 2, payment = 10, principal_paid = 9, interest = 1\<rparr>])
          ''Annuel'' = Inr ys
     \<and> sorted (map Annee ys) \<and> distinct (map Annee ys)
     \<and> set (map Annee ys) = {1, 2}
     \<and> sum_list (map Remboursement_du_pret ys) = 30
     \<and> sum_list (map Principal ys) = 24
     \<and> sum_list (map Interet ys) = 6"
  using aggregate_totals_per_year
    [of "[\<lparr>month = 12, year = 1, payment = 10, principal_paid = 7, interest = 3\<rparr>,
          \<lparr>month = 13, year = 2, payment = 10, principal_paid = 8, interest = 2\<rparr>,
          \<lparr>month = 14, year = 2, payment = 10, principal_paid = 9, interest = 1\<rparr>]"]
  by auto

text \<open>
  Claim C7. For every schedule with at least one row and the view \<open>"Mensuel"\<close>, each
  returned row holds the sums of its year divided by the number of rows of that year, a
  number that is never zero; so the average times that number is the total that the view
  \<open>"Annuel"\<close> returns for the same year.
\<close>

theorem aggregate_monthly_average:
  assumes "rs \<noteq> []"
  shows "\<exists>avg tot.
       aggregate_schedule (pd_DataFrame rs) ''Mensuel'' = Inr avg
     \<and> aggregate_schedule (pd_DataFrame rs) ''Annuel'' = Inr tot
     \<and> length avg = length tot
     \<and> (\<forall>i < length avg.
          Annee (avg ! i) = Annee (tot ! i)
        \<and> 0 < length (group_rows rs (Annee (avg ! i)))
        \<and> Remboursement_du_pret (avg ! i)
            = sum_list (map payment (group_rows rs (Annee (avg ! i))))
              / of_nat (length (group_rows rs (Annee (avg ! i))))
        \<and> Principal (avg ! i)
            = sum_list (map principal_paid (group_rows rs (Annee (avg ! i))))
              / of_nat (length (group_rows rs (Annee (avg ! i))))
        \<and> Interet (avg ! i)
            = sum_list (map interest (group_rows rs (Annee (avg ! i))))
              / of_nat (length (group_rows rs (Annee (avg ! i))))
        \<and> Remboursement_du_pret (avg ! i)
            * of_nat (length (group_rows rs (Annee (avg ! i))))
            = Remboursement_du_pret (tot ! i)
        \<and> Principal (avg ! i)
            * of_nat (length (group_rows rs (Annee (avg ! i))))
            = Principal (tot ! i)
        \<and> Interet (avg ! i)
            * of_nat (length (group_rows rs (Annee (avg ! i))))
            = Interet (tot ! i))"
proof -
  define g where "g = groupby_year rs"
  define avg where "avg = map rename_row (map monthly_average g)"
  define tot where "tot = map rename_row g"
  have r1: "aggregate_schedule (pd_DataFrame rs) ''Mensuel'' = Inr avg"
    using aggregate_schedule_nonempty [OF assms, of "''Mensuel''"] by (simp add: avg_def g_def)
  have r2: "aggregate_schedule (pd_DataFrame rs) ''Annuel'' = Inr tot"
    using aggregate_schedule_nonempty [OF assms, of "''Annuel''"] by (simp add: tot_def g_def)
  have len: "length avg = length tot" by (simp add: avg_def tot_def)
  have each: "Annee (avg ! i) = Annee (tot ! i)
        \<and> 0 < length (group_rows rs (Annee (avg ! i)))
        \<and> Remboursement_du_pret (avg ! i)
            = sum_list (map payment (group_rows rs (Annee (avg ! i))))
              / of_nat (length (group_rows rs (Annee (avg ! i))))
        \<and> Principal (avg ! i)
            = sum_list (map principal_paid (group_rows rs (Annee (avg ! i))))
              / of_nat (length (group_rows rs (Annee (avg ! i))))
        \<and> Interet (avg ! i)
            = sum_list (map interest (group_rows rs (Annee (avg ! i))))
              / of_nat (length (group_rows rs (Annee (avg ! i))))
        \<and> Remboursement_du_pret (avg ! i)
            * of_nat (length (group_rows rs (Annee (avg ! i))))
            = Remboursement_du_pret (tot ! i)
        \<and> Principal (avg ! i)
            * of_nat (length (group_rows rs (Annee (avg ! i))))
            = Principal (tot ! i)
        \<and> Interet (avg ! i)
            * of_nat (length (group_rows rs (Annee (avg ! i))))
            = Interet (tot ! i)"
    if i: "i < length avg" for i
  proof -
    define a where "a = g ! i"
    have ig: "i < length g" using i by (simp add: avg_def)
    then have mem: "a \<in> set (groupby_year rs)" by (simp add: a_def g_def)
    have av: "avg ! i = rename_row (monthly_average a)" using ig by (simp add: avg_def a_def)
    have to: "tot ! i = rename_row a" using ig by (simp add: tot_def a_def)
    have pos: "0 < agg_months a" by (rule groupby_year_months_pos [OF mem])
    have "a = agg_row rs (agg_year a)" using groupby_year_row [OF mem] by simp
    then have flds: "agg_payment a = sum_list (map payment (group_rows rs (agg_year a)))"
      "agg_principal a = sum_list (map principal_paid (group_rows rs (agg_year a)))"
      "agg_interest a = sum_list (map interest (group_rows rs (agg_year a)))"
      "agg_months a = length (group_rows rs (agg_year a))"
      by (metis AggRow.select_convs agg_row_def)+
    show ?thesis
      using pos flds unfolding av to
      by (simp add: rename_row_def monthly_average_def)
  qed
  show ?thesis using r1 r2 len each by blast
qed

theorem aggregate_monthly_average_witness:
  "\<exists>avg tot.
       aggregate_schedule
          (pd_DataFrame
             [\<lparr>month = 12, year = 1, payment = 10, principal_paid = 7, interest = 3\<rparr>,
              \<lparr>month = 13, year = 2, payment = 10, principal_paid = 8, interest = 2\<rparr>,
              \<lparr>month = 14, year = 2, payment = 10, principal_paid = 9, interest = 1\<rparr>])
          ''Mensuel'' = Inr avg
     \<and> aggregate_schedule
          (pd_DataFrame
             [\<lparr>month = 12, year = 1, payment = 10, principal_paid = 7, interest = 3\<rparr>,
              \<lparr>month = 13, year = 2, payment = 10, principal_paid = 8, interest = 2\<rparr>,
              \<lparr>month = 14, year = 2, payment = 10, principal_paid = 9, interest = 1\<rparr>])
          ''Annuel'' = Inr tot
     \<and> length avg = 2 \<and> length tot = 2
     \<and> Annee (avg ! 1) = 2
     \<and> Principal (avg ! 1) = 17 / 2 \<and> Principal (tot ! 1) = 17
     \<and> Principal (avg ! 1) * 2 = Principal (tot ! 1)"
proof -
  let ?rs = "[\<lparr>month = 12, year = 1, payment = 10, principal_paid = 7, interest = 3\<rparr>,
              \<lparr>month = 13, year = 2, payment = 10, principal_paid = 8, interest = 2\<rparr>,
              \<lparr>month = 14, year = 2, payment = 10, principal_paid = 9, interest = 1\<rparr>]"
  have ne: "?rs \<noteq> []" by simp
  have tot: "aggregate_schedule (pd_DataFrame ?rs) ''Annuel''
      = Inr [\<lparr>Annee = 1, Remboursement_du_pret = 10, Principal = 7, Interet = 3\<rparr>,
             \<lparr>Annee = 2, Remboursement_du_pret = 20, Principal = 17, Interet = 3\<rparr>]"
    by (simp add: aggregate_schedule_nonempty groupby_year_def agg_row_def group_rows_def
        rename_row_def Let_def)
  obtain avg tot' where
    a: "aggregate_schedule (pd_DataFrame ?rs) ''Mensuel'' = Inr avg" and
    t: "aggregate_schedule (pd_DataFrame ?rs) ''Annuel'' = Inr tot'" and
    l: "length avg = length tot'" and
    e: "\<forall>i < length avg.
          Annee (avg ! i) = Annee (tot' ! i)
        \<and> 0 < length (group_rows ?rs (Annee (avg ! i)))
        \<and> Remboursement_du_pret (avg ! i)
            = sum_list (map payment (group_rows ?rs (Annee (avg ! i))))
              / of_nat (length (group_rows ?rs (Annee (avg ! i))))
        \<and> Principal (avg ! i)
            = sum_list (map principal_paid (group_rows ?rs (Annee (avg ! i))))
              / of_nat (length (group_rows ?rs (Annee (avg ! i))))
        \<and> Interet (avg ! i)
            = sum_list (map interest (group_rows ?rs (Annee (avg ! i))))
              / of_nat (length (group_rows ?rs (Annee (avg ! i))))
        \<and> Remboursement_du_pret (avg ! i)
            * of_nat (length (group_rows ?rs (Annee (avg ! i))))
            = Remboursement_du_pret (tot' ! i)
        \<and> Principal (avg ! i)
            * of_nat (length (group_rows ?rs (Annee (avg ! i))))
            = Principal (tot' ! i)
        \<and> Interet (avg ! i)
            * of_nat (length (group_rows ?rs (Annee (avg ! i))))
            = Interet (tot' ! i)"
    using aggregate_monthly_average [OF ne] by blast
  have tt: "tot' = [\<lparr>Annee = 1, Remboursement_du_pret = 10, Principal = 7, Interet = 3\<rparr>,
             \<lparr>Annee = 2, Remboursement_du_pret = 20, Principal = 17, Interet = 3\<rparr>]"
    using t tot by simp
  have l2: "length avg = 2" using l tt by simp
  have lt: "(1 :: nat) < length avg" using l2 by simp
  note e1 = e [rule_format, OF lt]
  have y: "Annee (avg ! 1) = 2" using e1 tt by simp
  have "Principal (avg ! 1) * of_nat (length (group_rows ?rs (Annee (avg ! 1))))
            = Principal (tot' ! 1)" using e1 by blast
  then have p: "Principal (avg ! 1) * 2 = 17" unfolding y tt by (simp add: group_rows_def)
  then have p2: "Principal (avg ! 1) = 17 / 2" by simp
  show ?thesis using a t l2 tt y p p2 by simp
qed

text \<open>
  Claim C8. The claim is that \<open>aggregate_schedule\<close> returns on every input and returns no row
  on an empty one. It does return on every frame that has the five schedule columns, and
  returns no row when such a frame has none (lemmas \<open>aggregate_schedule_with_columns\<close>
  and \<open>aggregate_schedule_columns_no_rows\<close>). The frame that
  \<open>pd.DataFrame([])\<close> builds from an empty list of rows has no columns, and on it
  \<open>groupby("year")\<close> raises \<open>KeyError\<close>, whatever the view.
\<close>

theorem aggregate_schedule_empty_frame:
  "aggregate_schedule (pd_DataFrame []) ''Annuel'' = Inl KeyError
   \<and> aggregate_schedule (pd_DataFrame []) ''Mensuel'' = Inl KeyError"
  by (simp add: aggregate_schedule_def pd_DataFrame_def)

text \<open>
  Claim C10. The division by the number of months is applied only for the view \<open>"Mensuel"\<close>.
  For any other string, on a schedule with at least one row, \<open>aggregate_schedule\<close> returns
  what it returns for \<open>"Annuel"\<close>: one row per year, in ascending order, holding the sums
  over that year. The witness runs the views \<open>"MonthlyAverage"\<close> and \<open>"Totals"\<close>, which
  both give the totals, against \<open>"Mensuel"\<close>, which gives the averages.
\<close>

theorem other_views_give_totals:
  assumes "view \<noteq> ''Mensuel''" "rs \<noteq> []"
  shows "\<exists>ys. aggregate_schedule (pd_DataFrame rs) view = Inr ys
     \<and> aggregate_schedule (pd_DataFrame rs) ''Annuel'' = Inr ys
     \<and> map Annee ys = sort (remdups (map year rs))
     \<and> (\<forall>y \<in> set ys.
           Remboursement_du_pret y = sum_list (map payment (group_rows rs (Annee y)))
         \<and> Principal y = sum_list (map principal_paid (group_rows rs (Annee y)))
         \<and> Interet y = sum_list (map interest (group_rows rs (Annee y))))"
proof -
  define ys where "ys = map rename_row (groupby_year rs)"
  have r1: "aggregate_schedule (pd_DataFrame rs) view = Inr ys"
    using aggregate_schedule_nonempty [OF assms(2), of view] assms(1) by (simp add: ys_def)
  have r2: "aggregate_schedule (pd_DataFrame rs) ''Annuel'' = Inr ys"
    using aggregate_schedule_nonempty [OF assms(2), of "''Annuel''"] by (simp add: ys_def)
  have yrs: "map Annee ys = sort (remdups (map year rs))"
    using map_agg_year_groupby [of rs] by (simp add: ys_def rename_row_def comp_def)
  have each: "Remboursement_du_pret y = sum_list (map payment (group_rows rs (Annee y)))
         \<and> Principal y = sum_list (map principal_paid (group_rows rs (Annee y)))
         \<and> Interet y = sum_list (map interest (group_rows rs (Annee y)))"
    if yin: "y \<in> set ys" for y
  proof -
    obtain a where a: "a \<in> set (groupby_year rs)" "y = rename_row a"
      using yin by (auto simp: ys_def)
    have "a = agg_row rs (agg_year a)" using groupby_year_row [OF a(1)] by simp
    then have "agg_payment a = sum_list (map payment (group_rows rs (agg_year a)))"
      "agg_principal a = sum_list (map principal_paid (group_rows rs (agg_year a)))"
      "agg_interest a = sum_list (map interest (group_rows rs (agg_year a)))"
      by (metis AggRow.select_convs agg_row_def)+
    then show ?thesis using a(2) by (simp add: rename_row_def)
  qed
  show ?thesis using r1 r2 yrs each by blast
qed

theorem other_views_give_totals_witness:
  "aggregate_schedule
     (pd_DataFrame
        [\<lparr>month = 12, year = 1, payment = 10, principal_paid = 7, interest = 3\<rparr>,
         \<lparr>month = 13, year = 2, payment = 10, principal_paid = 8, interest = 2\<rparr>,
         \<lparr>month = 14, year = 2, payment = 10, principal_paid = 9, interest = 1\<rparr>])
     ''MonthlyAverage''
   = Inr [\<lparr>Annee = 1, Remboursement_du_pret = 10, Principal = 7, Interet = 3\<rparr>,
          \<lparr>Annee = 2, Remboursement_du_pret = 20, Principal = 17, Interet = 3\<rparr>]
   \<and> aggregate_schedule
     (pd_DataFrame
        [\<lparr>month = 12, year = 1, payment = 10, principal_paid = 7, interest = 3\<rparr>,
         \<lparr>month = 13, year = 2, payment = 10, principal_paid = 8, interest = 2\<rparr>,
         \<lparr>month = 14, year = 2, payment = 10, principal_paid = 9, interest = 1\<rparr>])
     ''Totals''
   = Inr [\<lparr>Annee = 1, Remboursement_du_pret = 10, Principal = 7, Interet = 3\<rparr>,
          \<lparr>Annee = 2, Remboursement_du_pret = 20, Principal = 17, Interet = 3\<rparr>]
   \<and> aggregate_schedule
     (pd_DataFrame
        [\<lparr>month = 12, year = 1, payment = 10, principal_paid = 7, interest = 3\<rparr>,
         \<lparr>month = 13, year = 2, payment = 10, principal_paid = 8, interest = 2\<rparr>,
         \<lparr>month = 14, year = 2, payment = 10, principal_paid = 9, interest = 1\<rparr>])
     ''Mensuel''
   = Inr [\<lparr>Annee = 1, Remboursement_du_pret = 10, Principal = 7, Interet = 3\<rparr>,
          \<lparr>Annee = 2, Remboursement_du_pret = 10, Principal = 17 / 2, Interet = 3 / 2\<rparr>]"
proof -
  let ?rs = "[\<lparr>month = 12, year = 1, payment = 10, principal_paid = 7, interest = 3\<rparr>,
              \<lparr>month = 13, year = 2, payment = 10, principal_paid = 8, interest = 2\<rparr>,
              \<lparr>month = 14, year = 2, payment = 10, principal_paid = 9, interest = 1\<rparr>]"
  have ne: "?rs \<noteq> []" by simp
  have tot: "aggregate_schedule (pd_DataFrame ?rs) ''Annuel''
      = Inr [\<lparr>Annee = 1, Remboursement_du_pret = 10, Principal = 7, Interet = 3\<rparr>,
             \<lparr>Annee = 2, Remboursement_du_pret = 20, Principal = 17, Interet = 3\<rparr>]"
    by (simp add: aggregate_schedule_nonempty groupby_year_def agg_row_def group_rows_def
        rename_row_def Let_def)
  have avg: "aggregate_schedule (pd_DataFrame ?rs) ''Mensuel''
      = Inr [\<lparr>Annee = 1, Remboursement_du_pret = 10, Principal = 7, Interet = 3\<rparr>,
          \<lparr>Annee = 2, Remboursement_du_pret = 10, Principal = 17 / 2, Interet = 3 / 2\<rparr>]"
    by (simp add: aggregate_schedule_nonempty groupby_year_def agg_row_def group_rows_def
        rename_row_def monthly_average_def Let_def)
  have v1: "''MonthlyAverage'' \<noteq> ''Mensuel''" and v2: "''Totals'' \<noteq> ''Mensuel''" by simp_all
  have a: "aggregate_schedule (pd_DataFrame ?rs) ''MonthlyAverage''
      = aggregate_schedule (pd_DataFrame ?rs) ''Annuel''"
    using other_views_give_totals [OF v1 ne] by auto
  have b: "aggregate_schedule (pd_DataFrame ?rs) ''Totals''
      = aggregate_schedule (pd_DataFrame ?rs) ''Annuel''"
    using other_views_give_totals [OF v2 ne] by auto
  show ?thesis using a b tot avg by simp
qed

section \<open>Claims about the core as a whole\<close>

text \<open>
  Claim C9. The claim is that, for \<open>principal \<ge> 0\<close>, \<open>annual_rate \<ge> 0\<close>, \<open>years \<ge> 1\<close>
  and \<open>ebitda \<ge> 0\<close>, no exception leaves the core and every division is guarded. In
  exact arithmetic this holds (lemma \<open>core_total_exact\<close>): a positive rate makes the
  denominator \<open>1 - (1 + monthly_rate) ** (-months)\<close> positive. In binary64 it does not: for
  the annual rate \<open>2^-50\<close> the monthly rate is positive, so line 20 takes the annuity branch,
  but \<open>1 + monthly_rate\<close> rounds to \<open>1.0\<close>, the denominator is \<open>0.0\<close> and line 23 raises
  \<open>ZeroDivisionError\<close>. The same happens whenever the rounded monthly rate lies strictly between
  0 and \<open>2^-53\<close> (lemma \<open>binary64_tiny_rate_raises\<close>).
\<close>

theorem binary64_small_rate_raises:
  "compute_monthly_schedule_binary64 \<lparr>principal = 1000, annual_rate = 1 / 2 ^ 50, years = 1\<rparr>
     = Inl ZeroDivisionError"
  by (simp only: compute_monthly_schedule_binary64_def monthly_payment_binary64_small_rate
      sum.case)

end
